theory Spec2Isabelle
  imports Main
begin

section \<open>JavaScript values and strings\<close>

text \<open>
  A JavaScript string is a sequence of UTF-16 code units. It is modelled as a
  \<^typ>\<open>string\<close>: one \<^typ>\<open>char\<close> stands for one code unit, so \<open>length\<close> is the
  JavaScript \<open>.length\<close> and the model covers the code units below 256. The white space
  that \<open>String.prototype.trim\<close> strips is, in that range, TAB, LF, VT, FF, CR, SPACE and
  NBSP.
\<close>

definition isWhiteSpace :: "char \<Rightarrow> bool" where
  "isWhiteSpace c =
     (c = CHR 0x09 \<or> c = CHR 0x0A \<or> c = CHR 0x0B \<or> c = CHR 0x0C \<or> c = CHR 0x0D \<or>
      c = CHR 0x20 \<or> c = CHR 0xA0)"

definition trim :: "string \<Rightarrow> string" where
  "trim s = rev (dropWhile isWhiteSpace (rev (dropWhile isWhiteSpace s)))"

definition startsWith :: "string \<Rightarrow> string \<Rightarrow> bool" where
  "startsWith s p = (take (length p) s = p)"

fun includesStr :: "string \<Rightarrow> string \<Rightarrow> bool" where
  "includesStr [] sub = (sub = [])"
| "includesStr (c # cs) sub = (startsWith (c # cs) sub \<or> includesStr cs sub)"

text \<open>
  The values the settings store can hold (JSON). A missing property (\<open>undefined\<close>) is
  \<open>None\<close> of a lookup; \<open>null\<close> is \<open>JNull\<close>. The operator \<open>??\<close> takes its right operand
  when the left one is \<open>undefined\<close> or \<open>null\<close>.
\<close>

datatype jsval =
    JNull
  | JBool bool
  | JNum int
  | JStr string
  | JArr "jsval list"
  | JObj "(string \<times> jsval) list"

fun truthy :: "jsval \<Rightarrow> bool" where
  "truthy JNull = False"
| "truthy (JBool b) = b"
| "truthy (JNum n) = (n \<noteq> 0)"
| "truthy (JStr s) = (s \<noteq> [])"
| "truthy (JArr _) = True"
| "truthy (JObj _) = True"

fun nullish :: "jsval option \<Rightarrow> jsval option \<Rightarrow> jsval option" where
  "nullish None y = y"
| "nullish (Some JNull) y = y"
| "nullish (Some v) y = Some v"

text \<open>Property access \<open>o.name\<close>: \<open>undefined\<close> on anything that is not an object with that key.\<close>

fun getProp :: "jsval \<Rightarrow> string \<Rightarrow> jsval option" where
  "getProp (JObj kvs) name = map_of kvs name"
| "getProp _ name = None"

text \<open>Optional chaining \<open>o?.name\<close> on a value that may be \<open>undefined\<close> or \<open>null\<close>.\<close>

fun optProp :: "jsval option \<Rightarrow> string \<Rightarrow> jsval option" where
  "optProp None name = None"
| "optProp (Some JNull) name = None"
| "optProp (Some v) name = getProp v name"

text \<open>
  An identifier such as a channel id is a string that may be \<open>undefined\<close>; the code tests
  it with \<open>!id\<close>, which is also true of the empty string.
\<close>

fun truthyId :: "string option \<Rightarrow> string option" where
  "truthyId None = None"
| "truthyId (Some c) = (if c = [] then None else Some c)"


section \<open>The editor (the Ace document and cursor)\<close>

text \<open>
  The editor is a vendored library; the plugin calls \<open>getValue\<close>, \<open>setValue\<close>,
  \<open>insert\<close>, \<open>getCursorPosition\<close>, \<open>session.insert\<close> and \<open>session.remove\<close>. The model is
  the plain-text meaning of these calls: a document is its list of lines, the value is the
  lines joined by LF, the cursor is a row and a column, a range is clipped to the document
  before it is removed, and an edit that changes nothing raises no change event. Selections,
  overwrite mode and the library's typing behaviours are outside the model.
\<close>

record position =
  row :: int
  column :: int

record editor =
  doc :: "string list"
  cursor :: position
  destroyed :: bool
  cachedChannelId :: "string option"

text \<open>
  \<open>destroyed\<close> is the editor's \<open>_destroyed\<close> flag. \<open>cachedChannelId\<close> is the variable of that
  name captured by the change listener that \<open>applyEditorSettings\<close> installs on the editor's
  session (build.js 1971-1988): the channel current when the editor was created, or
  \<open>null\<close> for an editor created in edit mode.
\<close>

fun joinLines :: "string list \<Rightarrow> string" where
  "joinLines [] = []"
| "joinLines [l] = l"
| "joinLines (l # ls) = l @ CHR 0x0A # joinLines ls"

fun splitLines :: "string \<Rightarrow> string list" where
  "splitLines [] = [[]]"
| "splitLines (c # cs) =
     (if c = CHR 0x0A then [] # splitLines cs
      else (case splitLines cs of [] \<Rightarrow> [[c]] | l # ls \<Rightarrow> (c # l) # ls))"

definition getValue :: "editor \<Rightarrow> string" where
  "getValue ed = joinLines (doc ed)"

definition getCursorPosition :: "editor \<Rightarrow> position" where
  "getCursorPosition ed = cursor ed"

definition lineAt :: "string list \<Rightarrow> nat \<Rightarrow> string" where
  "lineAt ls r = (if r < length ls then ls ! r else [])"

definition clippedPos :: "string list \<Rightarrow> position \<Rightarrow> position" where
  "clippedPos ls p =
     (let n = int (length ls);
          r = (if row p < 0 then 0 else if n \<le> row p then n - 1 else row p);
          len = int (length (lineAt ls (nat r)));
          c = (if n \<le> row p then len else min (max (column p) 0) len)
      in \<lparr>row = r, column = c\<rparr>)"

definition posLess :: "position \<Rightarrow> position \<Rightarrow> bool" where
  "posLess p q = (row p < row q \<or> (row p = row q \<and> column p < column q))"

definition removeLines :: "string list \<Rightarrow> position \<Rightarrow> position \<Rightarrow> string list" where
  "removeLines ls s e =
     (let sr = nat (row s); er = nat (row e) in
      take sr ls @ [take (nat (column s)) (lineAt ls sr) @ drop (nat (column e)) (lineAt ls er)]
        @ drop (Suc er) ls)"

text \<open>The cursor is an anchor: a removal before it shifts it, one around it pulls it to the start.\<close>

definition cursorAfterRemove :: "position \<Rightarrow> position \<Rightarrow> position \<Rightarrow> position" where
  "cursorAfterRemove s e p =
     (if \<not> posLess s p then p
      else if \<not> posLess p e then
        \<lparr>row = row p - (row e - row s),
         column = column p - (if row p = row e then column e - column s else 0)\<rparr>
      else s)"

text \<open>
  \<open>session.remove(range)\<close>: clips both ends; an empty range is a no-op without a change
  event. The result says whether a change event was raised.
\<close>

definition sessionRemove :: "position \<Rightarrow> position \<Rightarrow> editor \<Rightarrow> bool \<times> editor" where
  "sessionRemove rstart rend ed =
     (let s = clippedPos (doc ed) rstart; e = clippedPos (doc ed) rend in
      if posLess s e then
        (True, ed\<lparr>doc := removeLines (doc ed) s e, cursor := cursorAfterRemove s e (cursor ed)\<rparr>)
      else (False, ed))"

definition insertLines :: "string list \<Rightarrow> position \<Rightarrow> string \<Rightarrow> string list \<times> position" where
  "insertLines ls p t =
     (let r = nat (row p); c = nat (column p); l = lineAt ls r in
      case splitLines t of
        [] \<Rightarrow> (ls, p)
      | [single] \<Rightarrow>
          (take r ls @ [take c l @ single @ drop c l] @ drop (Suc r) ls,
           \<lparr>row = row p, column = column p + int (length single)\<rparr>)
      | first # rest \<Rightarrow>
          (take r ls @ [take c l @ first] @ butlast rest @ [last rest @ drop c l] @ drop (Suc r) ls,
           \<lparr>row = row p + int (length rest), column = int (length (last rest))\<rparr>))"

text \<open>
  \<open>editor.insert(text)\<close> and \<open>session.insert(cursor, text)\<close>: the text goes in at the cursor,
  which ends behind it. Inserting the empty string is a no-op without a change event.
\<close>

definition insertAtCursor :: "string \<Rightarrow> editor \<Rightarrow> bool \<times> editor" where
  "insertAtCursor t ed =
     (if t = [] then (False, ed)
      else (let p = clippedPos (doc ed) (cursor ed); (ls, q) = insertLines (doc ed) p t
            in (True, ed\<lparr>doc := ls, cursor := q\<rparr>)))"

text \<open>
  \<open>editor.setValue(text, -1)\<close>: the whole document is removed and the text inserted; the
  cursor goes to the document start. A change event is raised unless both the old and the
  new value are empty.
\<close>

definition setValue :: "string \<Rightarrow> editor \<Rightarrow> bool \<times> editor" where
  "setValue t ed =
     (getValue ed \<noteq> [] \<or> t \<noteq> [],
      ed\<lparr>doc := splitLines t, cursor := \<lparr>row = 0, column = 0\<rparr>\<rparr>)"

definition navigateFileEnd :: "editor \<Rightarrow> editor" where
  "navigateFileEnd ed =
     ed\<lparr>cursor := \<lparr>row = int (length (doc ed)) - 1,
                    column = int (length (lineAt (doc ed) (length (doc ed) - 1)))\<rparr>\<rparr>"


section \<open>The plugin object and its surroundings\<close>

record config =
  debugMode :: jsval
  fontSize :: jsval
  fontFamily :: jsval
  fontColor :: jsval
  backgroundColor :: jsval
  cursorColor :: jsval
  highlightActiveLine :: jsval
  sendInInsertMode :: jsval
  sendInNormalMode :: jsval

definition defaultConfig :: config where
  "defaultConfig =
     \<lparr>debugMode = JBool False, fontSize = JNum 16, fontFamily = JStr ''Consolas'',
      fontColor = JStr ''#e3e3e3'', backgroundColor = JStr ''#222327'',
      cursorColor = JStr ''#a52327'', highlightActiveLine = JBool False,
      sendInInsertMode = JBool False, sendInNormalMode = JBool True\<rparr>"

text \<open>
  A text input of the host page (\<open>originalInput\<close>), with the results of the DOM queries the
  plugin makes on it: whether \<open>closest('[class*="channelTextArea"]')\<close> finds a container,
  whether \<open>closest('[class*="chatContent"]')\<close> does, whether the container has a parent
  element, whether that parent holds an element matching \<open>[class*="operations"]\<close>, the
  texts of its Slate line nodes, and its \<open>innerText\<close> and \<open>textContent\<close>.
\<close>

record input =
  inputId :: nat
  inChannelTextArea :: bool
  inChatContent :: bool
  containerHasParent :: bool
  parentHasOperations :: bool
  slateLines :: "string list"
  innerText :: string
  textContent :: string

text \<open>
  The modal-editing engine attached to an editor (\<open>vimMode\<close>, possibly \<open>null\<close>):
  whether \<open>vimMode.constructor.Vim\<close> exists, and the keys handed to \<open>Vim.handleKey\<close> so far.
  What the engine does with a key, including the mode-change event it may raise, is the
  engine's business; the event is the separate transition \<open>vimModeChange\<close> below.
\<close>

record vim =
  VimApi :: bool
  handledKeys :: "string list"

text \<open>
  An entry of \<open>this.aceEditors\<close>: the editor and the engine attached to it (\<open>null\<close> until
  the engine is set up).
\<close>

record editorData =
  edEditor :: "editor option"
  edVimMode :: "vim option"

text \<open>
  \<open>dcModules\<close>: for each host module the constructor looks up, whether the lookup found it.
\<close>

record dcModules =
  SelectedChannelStore :: bool
  MessageActions :: bool
  MessageStore :: bool
  DraftActions :: bool
  DraftStore :: bool

record plugin =
  config :: "config option"
  customMappings :: jsval
  currentMode :: string
  justEnteredInsertMode :: bool
  aceLoaded :: bool
  draftCache :: "string \<rightharpoonup> string"
  lastProcessedDraft :: "string \<rightharpoonup> string"
  aceEditors :: "(input \<times> editorData) list"
  activeInputs :: "input list"
  channelChangeUnsubscribe :: bool
  draftChangeUnsubscribe :: bool
  observer :: bool
  modules :: dcModules

text \<open>
  The host application as the plugin sees it: the selected channel, the draft store (drafts
  of type 0, the only type the plugin uses), and the messages sent and edited through the
  host's actions. \<open>clearDraft(c, 0)\<close> removes the draft of \<open>c\<close>, \<open>saveDraft(c, t, 0)\<close> stores
  \<open>t\<close> as the draft of \<open>c\<close>, \<open>getDraft(c, 0)\<close> reads it.
\<close>

record host =
  selectedChannelId :: "string option"
  drafts :: "string \<rightharpoonup> string"
  sentMessages :: "(string option \<times> string) list"
  editedMessages :: "(string \<times> string \<times> string) list"

definition clearDraft :: "string \<Rightarrow> host \<Rightarrow> host" where
  "clearDraft c h = h\<lparr>drafts := (drafts h)(c := None)\<rparr>"

definition saveDraft :: "string \<Rightarrow> string \<Rightarrow> host \<Rightarrow> host" where
  "saveDraft c t h = h\<lparr>drafts := (drafts h)(c \<mapsto> t)\<rparr>"

definition getDraft :: "string \<Rightarrow> host \<Rightarrow> string option" where
  "getDraft c h = drafts h c"

text \<open>
  The listener on the editor session's change event (build.js 1977-1988): it stores the
  editor's value in the draft cache under the channel the editor was created in. The first
  component of the argument says whether the edit raised a change event.
\<close>

definition onChange :: "plugin \<Rightarrow> bool \<times> editor \<Rightarrow> plugin \<times> editor" where
  "onChange self r =
     (case r of (raised, ed) \<Rightarrow>
        (if raised then
           (case truthyId (cachedChannelId ed) of
              None \<Rightarrow> self
            | Some c \<Rightarrow> self\<lparr>draftCache := (draftCache self)(c \<mapsto> getValue ed)\<rparr>)
         else self, ed))"

text \<open>
  A keydown event with the fields the handlers read, the two flags \<open>preventDefault\<close> and
  \<open>stopPropagation\<close> set, and the message that \<open>editMessage\<close> resolves from the event
  target: \<open>None\<close> when the message element, its React instance or its message object is
  not found, else the object's \<open>id\<close> and \<open>channel_id\<close>.
\<close>

record keyevent =
  key :: string
  shiftKey :: bool
  ctrlKey :: bool
  altKey :: bool
  metaKey :: bool
  isComposing :: bool
  defaultPrevented :: bool
  propagationStopped :: bool
  targetMessage :: "(string option \<times> string option) option"

record sequence =
  buffer :: "string list"
  lastTime :: int
  timeout :: int
  action :: string
  mode :: string

record mapping =
  mapFrom :: string
  mapTo :: string
  mapMode :: string

text \<open>Everything a key handler can reach: \<open>this\<close>, the host, and its arguments.\<close>

record keyctx =
  cxPlugin :: plugin
  cxHost :: host
  cxEvent :: keyevent
  cxEditor :: editor
  cxVimMode :: "vim option"
  cxKeySequences :: "(string \<times> sequence) list option"


section \<open>Multi-key sequences\<close>

text \<open>\<open>Map.prototype.set\<close>: an existing key keeps its place, a new key goes last.\<close>

fun mapSet :: "'k \<Rightarrow> 'v \<Rightarrow> ('k \<times> 'v) list \<Rightarrow> ('k \<times> 'v) list" where
  "mapSet k v [] = [(k, v)]"
| "mapSet k v ((k', v') # kvs) =
     (if k' = k then (k, v) # kvs else (k', v') # mapSet k v kvs)"

text \<open>
  \<open>initializeKeySequences\<close> (build.js 1637-1651). \<open>this.customMappings\<close> is read as the
  array of \<open>{from, to, mode}\<close> objects that the settings panel writes.
\<close>

definition initializeKeySequences :: "mapping list \<Rightarrow> (string \<times> sequence) list" where
  "initializeKeySequences ms =
     foldl (\<lambda>sequences m.
              if 1 < length (mapFrom m) \<and> \<not> startsWith (mapFrom m) ''<'' then
                mapSet (mapFrom m)
                  \<lparr>buffer = [], lastTime = 0, timeout = 1000, action = mapTo m, mode = mapMode m\<rparr>
                  sequences
              else sequences) [] ms"

text \<open>
  The first loop of \<open>handleKeySequence\<close> (build.js 1710-1725) over the entries of the map, in
  order: returns the updated entries and the matched one, if any. The loop stops at the
  first match, so the entries behind it are left as they were.
\<close>

fun scanSequences ::
  "string \<Rightarrow> int \<Rightarrow> string \<Rightarrow> (string \<times> sequence) list \<Rightarrow>
     (string \<times> sequence) list \<times> (string \<times> sequence) option" where
  "scanSequences cur now k [] = ([], None)"
| "scanSequences cur now k ((keys, sq) # rest) =
     (if mode sq \<noteq> cur then
        (case scanSequences cur now k rest of (rest', m) \<Rightarrow> ((keys, sq) # rest', m))
      else
        (let sq1 = (if timeout sq \<le> now - lastTime sq then sq\<lparr>buffer := []\<rparr> else sq);
             sq2 = sq1\<lparr>buffer := buffer sq1 @ [k], lastTime := now\<rparr>;
             bufferStr = concat (buffer sq2)
         in if bufferStr = keys then ((keys, sq2) # rest, Some (keys, sq2))
            else
              (let sq3 = (if \<not> startsWith keys bufferStr then
                            (if \<not> startsWith keys k then sq2\<lparr>buffer := []\<rparr>
                             else sq2\<lparr>buffer := [k]\<rparr>)
                          else sq2)
               in case scanSequences cur now k rest of (rest', m) \<Rightarrow> ((keys, sq3) # rest', m))))"

definition clearSequences :: "(string \<times> sequence) list \<Rightarrow> (string \<times> sequence) list" where
  "clearSequences seqs = map (\<lambda>(keys, sq). (keys, sq\<lparr>buffer := [], lastTime := 0\<rparr>)) seqs"

text \<open>\<open>vim.handleKey(vimMode, k, null)\<close> behind the test \<open>if (vim)\<close>.\<close>

definition vimHandleKey :: "string \<Rightarrow> vim \<Rightarrow> vim" where
  "vimHandleKey k vm = (if VimApi vm then vm\<lparr>handledKeys := handledKeys vm @ [k]\<rparr> else vm)"

text \<open>
  \<open>handleKeySequence\<close> (build.js 1706-1763); \<open>now\<close> is \<open>Date.now()\<close>. The second loop
  (1756-1760) returns \<open>false\<close> on both of its paths and changes nothing.
\<close>

definition handleKeySequence ::
  "int \<Rightarrow> (string \<times> sequence) list \<Rightarrow> keyctx \<Rightarrow> bool \<times> keyctx" where
  "handleKeySequence now keySequences cx =
     (case scanSequences (currentMode (cxPlugin cx)) now (key (cxEvent cx)) keySequences of
        (seqs1, None) \<Rightarrow> (False, cx\<lparr>cxKeySequences := Some seqs1\<rparr>)
      | (seqs1, Some (keys, sq)) \<Rightarrow>
          (let ev1 = (cxEvent cx)\<lparr>defaultPrevented := True, propagationStopped := True\<rparr>;
               pos = getCursorPosition (cxEditor cx);
               charsToRemove = int (length keys) - 1;
               (self1, ed1) =
                 (if 0 < charsToRemove then
                    (let startCol = max 0 (column pos - charsToRemove)
                     in onChange (cxPlugin cx)
                          (sessionRemove \<lparr>row = row pos, column = startCol\<rparr> pos (cxEditor cx)))
                  else (cxPlugin cx, cxEditor cx));
               vm1 = (if action sq = ''<Esc>'' then map_option (vimHandleKey ''<Esc>'') (cxVimMode cx)
                      else cxVimMode cx)
           in (True, cx\<lparr>cxPlugin := self1, cxEvent := ev1, cxEditor := ed1, cxVimMode := vm1,
                         cxKeySequences := Some (clearSequences seqs1)\<rparr>)))"


section \<open>Sending and editing messages\<close>

datatype error = TypeError

text \<open>
  \<open>isEditMode\<close> (build.js 1386-1393).
\<close>

definition isEditMode :: "input \<Rightarrow> bool" where
  "isEditMode originalInput =
     (if \<not> inChannelTextArea originalInput then False
      else if \<not> containerHasParent originalInput then False
      else parentHasOperations originalInput)"

text \<open>
  \<open>getCurrentChannelId\<close> (build.js 1030-1036): a call on a module that was not found throws.
\<close>

definition getCurrentChannelId :: "plugin \<Rightarrow> host \<Rightarrow> error + string option" where
  "getCurrentChannelId self h =
     (if SelectedChannelStore (modules self) then Inr (selectedChannelId h) else Inl TypeError)"

text \<open>
  \<open>sendMessage\<close> (build.js 1992-2033). Every exception is caught inside the function, so
  it always returns; a branch marked \<open>caught\<close> is where a throw leaves the \<open>try\<close> block.
\<close>

definition sendMessage :: "string \<Rightarrow> plugin \<times> host \<Rightarrow> plugin \<times> host" where
  "sendMessage content st =
     (case st of (self, h) \<Rightarrow>
        if content = [] \<or> trim content = [] then (self, h)
        else
          (case getCurrentChannelId self h of
             Inl _ \<Rightarrow> (self, h) \<comment> \<open>caught\<close>
           | Inr channelId \<Rightarrow>
               if \<not> MessageActions (modules self) then (self, h) \<comment> \<open>caught\<close>
               else
                 (let h1 = h\<lparr>sentMessages := sentMessages h @ [(channelId, trim content)]\<rparr> in
                  case truthyId channelId of
                    None \<Rightarrow> (self, h1)
                  | Some c \<Rightarrow>
                      if \<not> DraftActions (modules self) then (self, h1)
                      else
                        (self\<lparr>draftCache := (draftCache self)(c := None),
                               lastProcessedDraft := (lastProcessedDraft self)(c := None)\<rparr>,
                         clearDraft c h1))))"

text \<open>
  \<open>editMessage\<close> (build.js 2035-2102). The content is normalised: CR LF becomes LF; the
  zero-width code units the code strips next (U+FEFF, U+200B to U+200D) lie outside the
  modelled range of code units.
\<close>

fun replaceCRLF :: "string \<Rightarrow> string" where
  "replaceCRLF (a # b # cs) =
     (if a = CHR 0x0D \<and> b = CHR 0x0A then CHR 0x0A # replaceCRLF cs
      else a # replaceCRLF (b # cs))"
| "replaceCRLF cs = cs"

definition editMessage :: "string \<Rightarrow> keyevent \<Rightarrow> plugin \<Rightarrow> host \<Rightarrow> host" where
  "editMessage content ev self h =
     (case targetMessage ev of
        None \<Rightarrow> h
      | Some (msgId, chanId) \<Rightarrow>
          (case truthyId msgId of
             None \<Rightarrow> h
           | Some messageId \<Rightarrow>
               (case truthyId chanId of
                  None \<Rightarrow> h
                | Some channelId \<Rightarrow>
                    if \<not> MessageStore (modules self) then h
                    else h\<lparr>editedMessages :=
                             editedMessages h @ [(channelId, messageId, replaceCRLF content)]\<rparr>)))"

text \<open>
  \<open>handleEnterKey\<close> (build.js 1765-1798). \<open>this.config\<close> is \<open>null\<close> until \<open>loadConfig\<close> has
  run; reading a property of it then throws, and nothing catches that.
\<close>

definition handleEnterKey :: "input \<Rightarrow> keyctx \<Rightarrow> error + keyctx" where
  "handleEnterKey originalInput cx =
     (case config (cxPlugin cx) of
        None \<Rightarrow> Inl TypeError
      | Some cfg \<Rightarrow>
          (let self = cxPlugin cx;
               shouldSendInInsert = (truthy (sendInInsertMode cfg) \<and> currentMode self = ''insert'');
               shouldSendInNormal = (truthy (sendInNormalMode cfg) \<and> currentMode self \<noteq> ''insert'')
           in if shouldSendInInsert \<or> shouldSendInNormal then
                (let cx1 = cx\<lparr>cxEvent := (cxEvent cx)\<lparr>defaultPrevented := True,
                                                        propagationStopped := True\<rparr>\<rparr>;
                     content = trim (getValue (cxEditor cx))
                 in if content = [] then Inr cx1
                    else if isEditMode originalInput then
                      Inr (cx1\<lparr>cxHost := editMessage content (cxEvent cx1) self (cxHost cx)\<rparr>)
                    else
                      (let (self1, h1) = sendMessage content (self, cxHost cx);
                           (self2, ed2) = onChange self1 (setValue [] (cxEditor cx))
                       in Inr (cx1\<lparr>cxPlugin := self2, cxHost := h1, cxEditor := ed2,
                                    cxVimMode := map_option (vimHandleKey ''i'') (cxVimMode cx)\<rparr>)))
              else Inr cx))"


section \<open>Routing a keystroke\<close>

definition vimModeChangeKeys :: "string list" where
  "vimModeChangeKeys =
     [''i'', ''a'', ''I'', ''A'', ''o'', ''O'', ''s'', ''S'', ''c'', ''C'', ''r'', ''R'']"

text \<open>
  \<open>handleKeydown\<close> (build.js 1653-1704). The listener is always given the editor it was
  created for, so \<open>!editor\<close> is covered by the \<open>_destroyed\<close> flag.
\<close>

definition handleKeydown :: "int \<Rightarrow> input \<Rightarrow> keyctx \<Rightarrow> error + keyctx" where
  "handleKeydown now originalInput cx =
     (if destroyed (cxEditor cx) then Inr cx
      else if isComposing (cxEvent cx) \<or> key (cxEvent cx) = ''Process'' then Inr cx
      else if key (cxEvent cx) = ''Enter'' \<and> \<not> shiftKey (cxEvent cx) then
        handleEnterKey originalInput cx
      else
        (let (handled, cx1) =
               (if currentMode (cxPlugin cx) = ''insert'' \<and> length (key (cxEvent cx)) = 1 then
                  (case cxKeySequences cx of
                     None \<Rightarrow> (False, cx)
                   | Some keySequences \<Rightarrow> handleKeySequence now keySequences cx)
                else (False, cx))
         in if handled then Inr cx1
            else
              (let self = cxPlugin cx1; ev = cxEvent cx1;
                   shouldSkipInsertion =
                     (justEnteredInsertMode self \<and> key ev \<in> set vimModeChangeKeys)
               in if \<not> shouldSkipInsertion \<and> currentMode self = ''insert'' \<and> length (key ev) = 1
                     \<and> \<not> ctrlKey ev \<and> \<not> altKey ev \<and> \<not> metaKey ev
                  then
                    (let ev1 = ev\<lparr>defaultPrevented := True, propagationStopped := True\<rparr>;
                         (self1, ed1) = onChange self (insertAtCursor (key ev) (cxEditor cx1))
                     in Inr (cx1\<lparr>cxPlugin := self1, cxEvent := ev1, cxEditor := ed1\<rparr>))
                  else Inr cx1)))"


section \<open>Mode changes reported by the engine\<close>

definition classListRemove :: "string list \<Rightarrow> string list \<Rightarrow> string list" where
  "classListRemove tokens cl = filter (\<lambda>c. c \<notin> set tokens) cl"

definition classListAdd :: "string \<Rightarrow> string list \<Rightarrow> string list" where
  "classListAdd token cl = (if token \<in> set cl then cl else cl @ [token])"

definition modeClasses :: "string list" where
  "modeClasses = [''vim-insert-mode'', ''vim-normal-mode'', ''vim-visual-mode'']"

text \<open>
  The listener on \<open>vim-mode-change\<close> (build.js 1803-1829). \<open>dataMode\<close> is \<open>data.mode\<close>;
  \<open>editorDiv\<close> is the class list of \<open>editor.container.closest(".vim-ace-editor")\<close>, or
  \<open>None\<close> when there is no such element. \<open>onModeChange\<close> is never assigned, so the last
  line of the listener does nothing. The timer the listener starts runs \<open>modeChangeTimer\<close>
  50 ms later.
\<close>

definition vimModeChange ::
  "string \<Rightarrow> plugin \<times> string list option \<Rightarrow> plugin \<times> string list option" where
  "vimModeChange dataMode st =
     (case st of (self, editorDiv) \<Rightarrow>
        (let previousMode = currentMode self;
             self1 = self\<lparr>currentMode := dataMode\<rparr>;
             self2 = (if previousMode = ''normal'' \<and> dataMode = ''insert''
                      then self1\<lparr>justEnteredInsertMode := True\<rparr> else self1)
         in (self2,
             map_option
               (\<lambda>cl. let cl1 = classListRemove modeClasses cl
                     in if dataMode = ''insert'' then classListAdd ''vim-insert-mode'' cl1
                        else if dataMode = ''visual'' then classListAdd ''vim-visual-mode'' cl1
                        else classListAdd ''vim-normal-mode'' cl1)
               editorDiv)))"

definition modeChangeTimer :: "plugin \<Rightarrow> plugin" where
  "modeChangeTimer self = self\<lparr>justEnteredInsertMode := False\<rparr>"


section \<open>Drafts across channel switches\<close>

text \<open>
  The loop over \<open>this.aceEditors.entries()\<close> that looks for the main chat editor
  (build.js 1095-1104 and 1163-1174): the first entry whose input has a container, is not
  in edit mode, and has an editor.
\<close>

fun findMainChatEditor :: "(input \<times> editorData) list \<Rightarrow> editor option" where
  "findMainChatEditor [] = None"
| "findMainChatEditor ((originalInput, ed) # rest) =
     (if inChannelTextArea originalInput \<and> \<not> isEditMode originalInput \<and> edEditor ed \<noteq> None
      then edEditor ed else findMainChatEditor rest)"

text \<open>The same entry, with its editor replaced: the editor object is mutated in place.\<close>

fun updateMainChatEditor :: "editor \<Rightarrow> (input \<times> editorData) list \<Rightarrow> (input \<times> editorData) list" where
  "updateMainChatEditor new [] = []"
| "updateMainChatEditor new ((originalInput, ed) # rest) =
     (if inChannelTextArea originalInput \<and> \<not> isEditMode originalInput \<and> edEditor ed \<noteq> None
      then (originalInput, ed\<lparr>edEditor := Some new\<rparr>) # rest
      else (originalInput, ed) # updateMainChatEditor new rest)"

text \<open>
  \<open>saveCurrentChannelDraft\<close> (build.js 1088-1120). \<open>DraftActions\<close> is used without a test;
  when the module was not found the call throws and the \<open>catch\<close> only logs.
\<close>

definition saveCurrentChannelDraft :: "string \<Rightarrow> plugin \<times> host \<Rightarrow> plugin \<times> host" where
  "saveCurrentChannelDraft channelId st =
     (case st of (self, h) \<Rightarrow>
        (let cached = (case draftCache self channelId of None \<Rightarrow> [] | Some t \<Rightarrow> t);
             content = (if cached = [] then
                          (case findMainChatEditor (aceEditors self) of
                             None \<Rightarrow> []
                           | Some ed \<Rightarrow> getValue ed)
                        else cached)
         in if trim content = [] then
              (if \<not> DraftActions (modules self) then (self, h) \<comment> \<open>caught\<close>
               else (self\<lparr>draftCache := (draftCache self)(channelId := None)\<rparr>,
                     clearDraft channelId h))
            else
              (if \<not> DraftActions (modules self) then (self, h) \<comment> \<open>caught\<close>
               else (self, saveDraft channelId content h))))"

text \<open>
  \<open>handleChannelChange\<close>, the listener on \<open>CHANNEL_SELECT\<close> (build.js 1054-1063), with its
  captured variable \<open>previousChannelId\<close> as the first component of the state. The listener
  exists only if \<open>SelectedChannelStore\<close> was found (1046-1049).
\<close>

definition handleChannelChange ::
  "string option \<times> plugin \<times> host \<Rightarrow> string option \<times> plugin \<times> host" where
  "handleChannelChange st =
     (case st of (previousChannelId, self, h) \<Rightarrow>
        (let newChannelId = selectedChannelId h;
             (self1, h1) =
               (case truthyId previousChannelId of
                  None \<Rightarrow> (self, h)
                | Some prev \<Rightarrow>
                    if previousChannelId \<noteq> newChannelId
                    then saveCurrentChannelDraft prev (self, h) else (self, h))
         in (newChannelId, self1, h1)))"

text \<open>
  \<open>handleDraftChange\<close>, the listener on \<open>DRAFT_CHANGE\<close> (build.js 1145-1266);
  \<open>dataChannelId\<close> is \<open>data.channelId\<close>. The timer that refocuses the editor (1246-1262)
  changes no text and no map.
\<close>

definition handleDraftChange :: "string option \<Rightarrow> plugin \<times> host \<Rightarrow> plugin \<times> host" where
  "handleDraftChange dataChannelId st =
     (case st of (self, h) \<Rightarrow>
        (case getCurrentChannelId self h of
           Inl _ \<Rightarrow> (self, h) \<comment> \<open>caught\<close>
         | Inr current \<Rightarrow>
        (case truthyId current of
           None \<Rightarrow> (self, h)
         | Some channelId \<Rightarrow>
        if dataChannelId \<noteq> current then (self, h)
        else if \<not> DraftStore (modules self) then (self, h) \<comment> \<open>caught\<close>
        else
        (case getDraft channelId h of
           None \<Rightarrow> (self, h)
         | Some draftContent \<Rightarrow>
        if draftContent = [] \<or> trim draftContent = [] then (self, h)
        else
        (let lastProcessed = (case lastProcessedDraft self channelId of None \<Rightarrow> [] | Some t \<Rightarrow> t)
         in if lastProcessed = draftContent then (self, h)
        else
        (case findMainChatEditor (aceEditors self) of
           None \<Rightarrow> (self, h)
         | Some activeEditor \<Rightarrow>
        (let editorContent = getValue activeEditor
         in if includesStr editorContent (trim draftContent) then
              (if \<not> DraftActions (modules self) then (self, h) \<comment> \<open>caught\<close>
               else (self\<lparr>lastProcessedDraft := (lastProcessedDraft self)(channelId \<mapsto> draftContent)\<rparr>,
                     clearDraft channelId h))
        else
        (let hasCachedDraft =
               (case draftCache self channelId of None \<Rightarrow> False | Some t \<Rightarrow> trim t \<noteq> [])
         in if (editorContent = [] \<or> trim editorContent = []) \<and> hasCachedDraft then (self, h)
        else
        (let newContent =
               (if lastProcessed \<noteq> [] \<and> startsWith draftContent lastProcessed
                then trim (drop (length lastProcessed) draftContent)
                else trim draftContent)
         in if newContent = [] then
              (self\<lparr>lastProcessedDraft := (lastProcessedDraft self)(channelId \<mapsto> draftContent)\<rparr>, h)
        else
        (let (self1, ed1) = onChange self (insertAtCursor newContent activeEditor);
             self2 = self1\<lparr>aceEditors := updateMainChatEditor ed1 (aceEditors self1),
                          lastProcessedDraft := (lastProcessedDraft self1)(channelId \<mapsto> draftContent)\<rparr>
         in if \<not> DraftActions (modules self) then (self2, h) \<comment> \<open>caught\<close>
            else (self2\<lparr>draftCache := (draftCache self2)(channelId \<mapsto> getValue ed1)\<rparr>,
                  clearDraft channelId h)))))))))))"


section \<open>Creating an editor and loading its first content\<close>

text \<open>
  What \<open>createEditor\<close> hands to \<open>loadInitialContent\<close> (build.js 1339-1384 with
  \<open>applyEditorSettings\<close>, 1971-1975): an empty editor whose change listener has captured
  the channel current at that moment, or \<open>null\<close> in edit mode.
\<close>

definition newEditor :: "input \<Rightarrow> plugin \<Rightarrow> host \<Rightarrow> error + editor" where
  "newEditor originalInput self h =
     (if isEditMode originalInput then
        Inr \<lparr>doc = [[]], cursor = \<lparr>row = 0, column = 0\<rparr>, destroyed = False, cachedChannelId = None\<rparr>
      else
        (case getCurrentChannelId self h of
           Inl err \<Rightarrow> Inl err
         | Inr c \<Rightarrow>
             Inr \<lparr>doc = [[]], cursor = \<lparr>row = 0, column = 0\<rparr>, destroyed = False,
                  cachedChannelId = c\<rparr>))"

text \<open>\<open>extractEditModeText\<close> (build.js 1464-1486), see \<open>editMessage\<close> for the zero-width units.\<close>

definition extractEditModeText :: "input \<Rightarrow> string" where
  "extractEditModeText originalInput =
     (if slateLines originalInput \<noteq> [] then joinLines (slateLines originalInput)
      else if innerText originalInput \<noteq> [] then innerText originalInput
      else textContent originalInput)"

text \<open>\<open>editor.setValue(text, -1); editor.navigateFileEnd()\<close> with the change listener.\<close>

definition setContent :: "string \<Rightarrow> plugin \<times> editor \<Rightarrow> plugin \<times> editor" where
  "setContent t st =
     (case st of (self, ed) \<Rightarrow>
        (case onChange self (setValue t ed) of (self1, ed1) \<Rightarrow> (self1, navigateFileEnd ed1)))"

text \<open>
  The fallback at the end of \<open>loadInitialContent\<close> (build.js 1452-1461).
\<close>

definition loadFallback :: "input \<Rightarrow> plugin \<times> editor \<Rightarrow> plugin \<times> editor" where
  "loadFallback originalInput st =
     (let existingContent =
            (if innerText originalInput \<noteq> [] then innerText originalInput
             else textContent originalInput)
      in if existingContent \<noteq> [] \<and> trim existingContent \<noteq> [] then setContent existingContent st
         else st)"

text \<open>
  \<open>loadInitialContent\<close> (build.js 1395-1462). The host is only read.
\<close>

definition loadInitialContent :: "editor \<Rightarrow> input \<Rightarrow> plugin \<Rightarrow> host \<Rightarrow> plugin \<times> editor" where
  "loadInitialContent ed originalInput self h =
     (if isEditMode originalInput then
        (let existingContent = extractEditModeText originalInput
         in if existingContent = [] \<or> trim existingContent = [] then (self, ed)
            else setContent existingContent (self, ed))
      else
        (case getCurrentChannelId self h of
           Inl _ \<Rightarrow> loadFallback originalInput (self, ed) \<comment> \<open>caught\<close>
         | Inr current \<Rightarrow>
             (case truthyId current of
                None \<Rightarrow> (self, ed)
              | Some channelId \<Rightarrow>
                  (let cachedDraft = (case draftCache self channelId of None \<Rightarrow> [] | Some t \<Rightarrow> t)
                   in if cachedDraft \<noteq> [] \<and> trim cachedDraft \<noteq> [] then
                        setContent cachedDraft (self, ed)
                      else
                        (let draft = (if DraftStore (modules self)
                                      then (case getDraft channelId h of None \<Rightarrow> [] | Some t \<Rightarrow> t)
                                      else [])
                         in if draft \<noteq> [] \<and> trim draft \<noteq> [] then
                              (case setContent draft (self, ed) of
                                 (self1, ed1) \<Rightarrow>
                                   (self1\<lparr>draftCache := (draftCache self1)(channelId \<mapsto> draft)\<rparr>, ed1))
                            else loadFallback originalInput (self, ed))))))"


section \<open>Settings\<close>

text \<open>
  The plugin API of the host runtime, as far as the plugin's start-up uses it: the value
  stored under the key \<open>config\<close> for this plugin (\<open>None\<close> when nothing was saved; \<open>save\<close>
  stores a value and \<open>load\<close> returns it), the toasts shown so far with their type, the ids
  of the style sheets added, and whether the module lookup finds the Flux dispatcher.
\<close>

record bdapi =
  dataConfig :: "jsval option"
  toasts :: "(string \<times> string) list"
  styles :: "string list"
  dispatcher :: bool

text \<open>\<open>x ?? d\<close> with a right operand that is a value.\<close>

fun orElse :: "jsval option \<Rightarrow> jsval \<Rightarrow> jsval" where
  "orElse None d = d"
| "orElse (Some JNull) d = d"
| "orElse (Some v) d = v"

text \<open>\<open>saved.settings?.name ?? saved.name ?? dflt\<close>.\<close>

definition pick :: "jsval \<Rightarrow> string \<Rightarrow> jsval \<Rightarrow> jsval" where
  "pick saved name dflt =
     orElse (nullish (optProp (getProp saved ''settings'') name) (getProp saved name)) dflt"

text \<open>\<open>saveConfig\<close> (build.js 365-379).\<close>

definition saveConfig :: "plugin \<times> bdapi \<Rightarrow> error + plugin \<times> bdapi" where
  "saveConfig st =
     (case st of (self, bd) \<Rightarrow>
        (case config self of
           None \<Rightarrow> Inl TypeError
         | Some c \<Rightarrow>
             (let dataToSave =
                    JObj [(''debugMode'', debugMode c), (''fontSize'', fontSize c),
                          (''fontFamily'', fontFamily c), (''fontColor'', fontColor c),
                          (''backgroundColor'', backgroundColor c),
                          (''cursorColor'', cursorColor c),
                          (''highlightActiveLine'', highlightActiveLine c),
                          (''sendInInsertMode'', sendInInsertMode c),
                          (''sendInNormalMode'', sendInNormalMode c),
                          (''customMappings'', customMappings self)]
              in Inr (self, bd\<lparr>dataConfig := Some dataToSave\<rparr>))))"

text \<open>\<open>loadConfig\<close> (build.js 312-363).\<close>

definition loadConfig :: "plugin \<times> bdapi \<Rightarrow> error + plugin \<times> bdapi" where
  "loadConfig st =
     (case st of (self, bd) \<Rightarrow>
        (let fresh = self\<lparr>config := Some defaultConfig, customMappings := JArr []\<rparr>;
             self1 =
               (case dataConfig bd of
                  None \<Rightarrow> fresh
                | Some saved \<Rightarrow>
                    if truthy saved then
                      self\<lparr>config := Some
                             \<lparr>debugMode = pick saved ''debugMode'' (debugMode defaultConfig),
                              fontSize = pick saved ''fontSize'' (fontSize defaultConfig),
                              fontFamily = pick saved ''fontFamily'' (fontFamily defaultConfig),
                              fontColor = pick saved ''fontColor'' (fontColor defaultConfig),
                              backgroundColor =
                                pick saved ''backgroundColor'' (backgroundColor defaultConfig),
                              cursorColor = pick saved ''cursorColor'' (cursorColor defaultConfig),
                              highlightActiveLine =
                                pick saved ''highlightActiveLine'' (highlightActiveLine defaultConfig),
                              sendInInsertMode =
                                pick saved ''sendInInsertMode'' (sendInInsertMode defaultConfig),
                              sendInNormalMode =
                                pick saved ''sendInNormalMode'' (sendInNormalMode defaultConfig)\<rparr>,
                           customMappings :=
                             orElse (nullish (getProp saved ''customMappings'')
                                       (optProp (getProp saved ''settings'') ''customMappings''))
                               (JArr [])\<rparr>
                    else fresh)
         in saveConfig (self1, bd)))"


section \<open>Start-up\<close>

text \<open>
  The page: whether \<open>window.ace\<close> is defined, the sources of the script elements appended
  to \<open>document.head\<close>, the ids of the inputs in front of which an editor wrapper was
  inserted, and the text inputs that the two selectors of \<open>findAndAttachToInputs\<close> find.
\<close>

record page =
  windowAce :: bool
  headScripts :: "string list"
  wrappedInputs :: "nat list"
  textInputs :: "input list"

text \<open>
  What the network does with the two script elements: whether the library script loads,
  whether running it defines \<open>window.ace\<close>, and whether the key-binding script loads.
\<close>

record cdn =
  aceScriptLoads :: bool
  aceScriptDefinesAce :: bool
  vimScriptLoads :: bool

record world =
  wPlugin :: plugin
  wHost :: host
  wPage :: page
  wBd :: bdapi
  wPreviousChannelId :: "string option"

text \<open>
  \<open>log\<close> (build.js 2199-2206): the console is not modelled; in debug mode the message is
  also shown as a toast.
\<close>

definition log :: "string \<Rightarrow> string \<Rightarrow> world \<Rightarrow> world" where
  "log message type w =
     (if (case config (wPlugin w) of None \<Rightarrow> False | Some c \<Rightarrow> truthy (debugMode c)) then
        w\<lparr>wBd := (wBd w)\<lparr>toasts := toasts (wBd w) @ [(''[VimMotions] '' @ message, type)]\<rparr>\<rparr>
      else w)"

definition aceUrl :: string where
  "aceUrl = ''https://cdn.jsdelivr.net/npm/ace-builds@1.43.3/src-min-noconflict/ace.js''"

definition vimUrl :: string where
  "vimUrl = ''https://cdn.jsdelivr.net/npm/ace-builds@1.43.3/src-min-noconflict/keybinding-vim.js''"

text \<open>
  \<open>loadScript\<close> (build.js 300-308): the script element is appended to the head before the
  outcome of the load is known.
\<close>

definition loadScript :: "string \<Rightarrow> world \<Rightarrow> world" where
  "loadScript src w = w\<lparr>wPage := (wPage w)\<lparr>headScripts := headScripts (wPage w) @ [src]\<rparr>\<rparr>"

definition setAceLoaded :: "bool \<Rightarrow> world \<Rightarrow> world" where
  "setAceLoaded b w = w\<lparr>wPlugin := (wPlugin w)\<lparr>aceLoaded := b\<rparr>\<rparr>"

text \<open>\<open>loadAceEditor\<close> (build.js 270-298).\<close>

definition loadAceEditor :: "cdn \<Rightarrow> world \<Rightarrow> world" where
  "loadAceEditor net w =
     (if windowAce (wPage w) then setAceLoaded True w
      else
        (let w1 = loadScript aceUrl w in
         if \<not> aceScriptLoads net then
           setAceLoaded False
             (log (''Failed to load Ace Editor: Failed to load script: '' @ aceUrl) ''error'' w1)
         else
           (let w2 = w1\<lparr>wPage := (wPage w1)\<lparr>windowAce := aceScriptDefinesAce net\<rparr>\<rparr> in
            if windowAce (wPage w2) then
              (let w3 = loadScript vimUrl w2 in
               if \<not> vimScriptLoads net then
                 setAceLoaded False
                   (log (''Failed to load Ace Editor: Failed to load script: '' @ vimUrl) ''error'' w3)
               else log ''Ace Editor loaded successfully'' ''info'' (setAceLoaded True w3))
            else w2)))"

text \<open>
  \<open>setupChannelChangeListener\<close> (build.js 1039-1085) and \<open>setupDraftChangeListener\<close>
  (1123-1278): what \<open>subscribe\<close> returns is taken to be truthy.
\<close>

definition setupChannelChangeListener :: "world \<Rightarrow> world" where
  "setupChannelChangeListener w =
     (if channelChangeUnsubscribe (wPlugin w) then
        log ''Channel change listener already set up, skipping'' ''info'' w
      else if \<not> SelectedChannelStore (modules (wPlugin w)) then
        log ''SelectedChannelStore not found, cannot setup listener'' ''warn'' w
      else
        (let w1 = w\<lparr>wPreviousChannelId := selectedChannelId (wHost w)\<rparr> in
         if dispatcher (wBd w1) then
           log ''Subscribed to channel change events'' ''info''
             (w1\<lparr>wPlugin := (wPlugin w1)\<lparr>channelChangeUnsubscribe := True\<rparr>\<rparr>)
         else log ''Flux Dispatcher not found'' ''warn'' w1))"

definition setupDraftChangeListener :: "world \<Rightarrow> world" where
  "setupDraftChangeListener w =
     (if draftChangeUnsubscribe (wPlugin w) then
        log ''Draft change listener already set up, skipping'' ''info'' w
      else if \<not> DraftStore (modules (wPlugin w)) then
        log ''DraftStore not found, cannot setup draft listener'' ''warn'' w
      else if \<not> dispatcher (wBd w) then
        log ''Flux Dispatcher not found for draft listener'' ''warn'' w
      else
        log ''Subscribed to draft change events'' ''info''
          (w\<lparr>wPlugin := (wPlugin w)\<lparr>draftChangeUnsubscribe := True\<rparr>\<rparr>))"

text \<open>
  \<open>addStyles\<close> (build.js 946-988): the style sheet is recorded by its id. \<open>hexToRgba\<close>
  calls \<open>slice\<close> on the cursor colour, which throws on a truthy value that is neither a
  string nor an array.
\<close>

fun hasSlice :: "jsval \<Rightarrow> bool" where
  "hasSlice (JStr _) = True"
| "hasSlice (JArr _) = True"
| "hasSlice _ = False"

definition addStyles :: "world \<Rightarrow> error + world" where
  "addStyles w =
     (let configured = (case config (wPlugin w) of None \<Rightarrow> JNull | Some c \<Rightarrow> cursorColor c);
          cursorColor = (if truthy configured then configured else cursorColor defaultConfig)
      in if \<not> hasSlice cursorColor then Inl TypeError
         else Inr (w\<lparr>wBd := (wBd w)\<lparr>styles :=
                      filter (\<lambda>i. i \<noteq> ''VimMotions'') (styles (wBd w)) @ [''VimMotions'']\<rparr>\<rparr>))"

text \<open>
  \<open>attachAceEditor\<close> (build.js 1280-1337) with \<open>createEditor\<close>, as far as the page, the two
  registries and the draft maps go: the wrapper is inserted, the editor is created and
  registered, and its first content is loaded into it (the registered object is the one
  that is mutated, hence the second \<open>mapSet\<close>). The engine is set up by timers that run
  later. Debug toasts raised while attaching are not recorded.
\<close>

definition shouldAttachToInput :: "input \<Rightarrow> bool" where
  "shouldAttachToInput i = (inChannelTextArea i \<or> inChatContent i)"

definition attachAceEditor :: "input \<Rightarrow> world \<Rightarrow> world" where
  "attachAceEditor originalInput w =
     (if \<not> aceLoaded (wPlugin w) \<or> \<not> windowAce (wPage w) then w
      else
        (let w1 = w\<lparr>wPage := (wPage w)\<lparr>wrappedInputs :=
                        wrappedInputs (wPage w) @ [inputId originalInput]\<rparr>\<rparr> in
         case newEditor originalInput (wPlugin w1) (wHost w1) of
           Inl _ \<Rightarrow> w1 \<comment> \<open>caught\<close>
         | Inr ed \<Rightarrow>
             (let self0 = wPlugin w1;
                  self1 = self0\<lparr>aceEditors :=
                            mapSet originalInput \<lparr>edEditor = Some ed, edVimMode = None\<rparr>
                              (aceEditors self0),
                          activeInputs :=
                            (if originalInput \<in> set (activeInputs self0) then activeInputs self0
                             else activeInputs self0 @ [originalInput])\<rparr>;
                  (self2, ed2) = loadInitialContent ed originalInput self1 (wHost w1)
              in w1\<lparr>wPlugin := self2\<lparr>aceEditors :=
                         mapSet originalInput \<lparr>edEditor = Some ed2, edVimMode = None\<rparr>
                           (aceEditors self2)\<rparr>\<rparr>)))"

definition findAndAttachToInputs :: "world \<Rightarrow> world" where
  "findAndAttachToInputs w =
     foldl (\<lambda>w' i. if i \<notin> set (activeInputs (wPlugin w')) \<and> shouldAttachToInput i
                    then attachAceEditor i w' else w')
       w (textInputs (wPage w))"

definition startObserving :: "world \<Rightarrow> world" where
  "startObserving w =
     (let w1 = findAndAttachToInputs w in w1\<lparr>wPlugin := (wPlugin w1)\<lparr>observer := True\<rparr>\<rparr>)"

definition showToast :: "string \<Rightarrow> string \<Rightarrow> world \<Rightarrow> world" where
  "showToast message type w = w\<lparr>wBd := (wBd w)\<lparr>toasts := toasts (wBd w) @ [(message, type)]\<rparr>\<rparr>"

text \<open>\<open>start\<close> (build.js 173-190).\<close>

definition start :: "cdn \<Rightarrow> world \<Rightarrow> error + world" where
  "start net w =
     (let w0 = log ''Starting VimMotions with Ace Editor...'' ''info'' w in
      case loadConfig (wPlugin w0, wBd w0) of
        Inl err \<Rightarrow> Inl err
      | Inr (self1, bd1) \<Rightarrow>
          (let w2 = loadAceEditor net (w0\<lparr>wPlugin := self1, wBd := bd1\<rparr>) in
           if \<not> aceLoaded (wPlugin w2) then
             Inr (showToast ''[VimMotions] Failed to load Ace Editor'' ''error'' w2)
           else
             (case addStyles (setupDraftChangeListener (setupChannelChangeListener w2)) of
                Inl err \<Rightarrow> Inl err
              | Inr w3 \<Rightarrow> Inr (log ''VimMotions Started'' ''info'' (startObserving w3)))))"


section \<open>States used in the statements below\<close>

text \<open>The constructor (build.js 125-171), given which host modules the lookups find.\<close>

definition newPlugin :: "dcModules \<Rightarrow> plugin" where
  "newPlugin found =
     \<lparr>config = None, customMappings = JArr [], currentMode = ''insert'',
      justEnteredInsertMode = False, aceLoaded = False, draftCache = Map.empty,
      lastProcessedDraft = Map.empty, aceEditors = [], activeInputs = [],
      channelChangeUnsubscribe = False, draftChangeUnsubscribe = False, observer = False,
      modules = found\<rparr>"

definition allModules :: dcModules where
  "allModules =
     \<lparr>SelectedChannelStore = True, MessageActions = True, MessageStore = True,
      DraftActions = True, DraftStore = True\<rparr>"

text \<open>The editor keeps its cursor inside the document.\<close>

definition positionInDocument :: "string list \<Rightarrow> position \<Rightarrow> bool" where
  "positionInDocument ls p =
     (0 \<le> row p \<and> row p < int (length ls) \<and> 0 \<le> column p \<and>
      column p \<le> int (length (lineAt ls (nat (row p)))))"

definition cursorInDocument :: "editor \<Rightarrow> bool" where
  "cursorInDocument ed = positionInDocument (doc ed) (cursor ed)"

text \<open>
  A key completes a multi-key sequence when \<open>handleKeydown\<close> hands it to
  \<open>handleKeySequence\<close> and that returns \<open>true\<close>.
\<close>

definition completesSequence :: "int \<Rightarrow> keyctx \<Rightarrow> bool" where
  "completesSequence now cx =
     (currentMode (cxPlugin cx) = ''insert'' \<and> length (key (cxEvent cx)) = 1 \<and>
      (case cxKeySequences cx of
         None \<Rightarrow> False
       | Some keySequences \<Rightarrow> fst (handleKeySequence now keySequences cx)))"

text \<open>
  The condition of the manual insertion in \<open>handleKeydown\<close> as the specification words
  it: insert mode, a single character, no modifier, and not a mode-change key in the
  just-entered window.
\<close>

definition literalKey :: "plugin \<Rightarrow> keyevent \<Rightarrow> bool" where
  "literalKey self ev =
     (currentMode self = ''insert'' \<and> length (key ev) = 1 \<and>
      \<not> ctrlKey ev \<and> \<not> altKey ev \<and> \<not> metaKey ev \<and>
      \<not> (justEnteredInsertMode self \<and> key ev \<in> set vimModeChangeKeys))"

text \<open>
  The value of a settings field as the specification words it: the value in the nested
  settings object if present, else the value in the flat saved object, else the default. A
  value is present when it is neither \<open>undefined\<close> nor \<open>null\<close>.
\<close>

fun present :: "jsval option \<Rightarrow> bool" where
  "present None = False"
| "present (Some JNull) = False"
| "present (Some v) = True"

definition specField :: "jsval \<Rightarrow> string \<Rightarrow> jsval \<Rightarrow> jsval" where
  "specField saved name dflt =
     (if present (optProp (getProp saved ''settings'') name)
      then the (optProp (getProp saved ''settings'') name)
      else if present (getProp saved name) then the (getProp saved name)
      else dflt)"

definition specConfig :: "jsval \<Rightarrow> config" where
  "specConfig saved =
     \<lparr>debugMode = specField saved ''debugMode'' (debugMode defaultConfig),
      fontSize = specField saved ''fontSize'' (fontSize defaultConfig),
      fontFamily = specField saved ''fontFamily'' (fontFamily defaultConfig),
      fontColor = specField saved ''fontColor'' (fontColor defaultConfig),
      backgroundColor = specField saved ''backgroundColor'' (backgroundColor defaultConfig),
      cursorColor = specField saved ''cursorColor'' (cursorColor defaultConfig),
      highlightActiveLine = specField saved ''highlightActiveLine'' (highlightActiveLine defaultConfig),
      sendInInsertMode = specField saved ''sendInInsertMode'' (sendInInsertMode defaultConfig),
      sendInNormalMode = specField saved ''sendInNormalMode'' (sendInNormalMode defaultConfig)\<rparr>"

text \<open>The text the channel listener reconciles for the channel being left.\<close>

definition oldChannelContent :: "plugin \<Rightarrow> string \<Rightarrow> string" where
  "oldChannelContent self c =
     (case draftCache self c of
        Some t \<Rightarrow> if t \<noteq> [] then t
                  else (case findMainChatEditor (aceEditors self) of None \<Rightarrow> [] | Some ed \<Rightarrow> getValue ed)
      | None \<Rightarrow> (case findMainChatEditor (aceEditors self) of None \<Rightarrow> [] | Some ed \<Rightarrow> getValue ed))"

text \<open>Concrete inputs: a main chat input, a key press, an editor holding one line.\<close>

definition mainInput :: input where
  "mainInput =
     \<lparr>inputId = 1, inChannelTextArea = True, inChatContent = False, containerHasParent = True,
      parentHasOperations = False, slateLines = [], innerText = [], textContent = []\<rparr>"

definition editInput :: input where
  "editInput =
     \<lparr>inputId = 2, inChannelTextArea = True, inChatContent = False, containerHasParent = True,
      parentHasOperations = True, slateLines = [''old text''], innerText = ''old text'',
      textContent = ''old text''\<rparr>"

definition keyPress :: "string \<Rightarrow> keyevent" where
  "keyPress k =
     \<lparr>key = k, shiftKey = False, ctrlKey = False, altKey = False, metaKey = False,
      isComposing = False, defaultPrevented = False, propagationStopped = False,
      targetMessage = None\<rparr>"

definition lineEditor :: "string \<Rightarrow> editor" where
  "lineEditor l =
     \<lparr>doc = [l], cursor = \<lparr>row = 0, column = int (length l)\<rparr>, destroyed = False,
      cachedChannelId = Some ''c1''\<rparr>"

definition hostIn :: "string \<Rightarrow> host" where
  "hostIn c = \<lparr>selectedChannelId = Some c, drafts = Map.empty, sentMessages = [], editedMessages = []\<rparr>"

definition loadedPlugin :: plugin where
  "loadedPlugin = (newPlugin allModules)\<lparr>config := Some defaultConfig, aceLoaded := True\<rparr>"

definition typing :: "string \<Rightarrow> string \<Rightarrow> mapping list \<Rightarrow> keyctx" where
  "typing l k ms =
     \<lparr>cxPlugin = loadedPlugin, cxHost = hostIn ''c1'', cxEvent = keyPress k,
      cxEditor = lineEditor l, cxVimMode = Some \<lparr>VimApi = True, handledKeys = []\<rparr>,
      cxKeySequences = Some (initializeKeySequences ms)\<rparr>"

definition jkEsc :: mapping where
  "jkEsc = \<lparr>mapFrom = ''jk'', mapTo = ''<Esc>'', mapMode = ''insert''\<rparr>"

definition jjDown :: mapping where
  "jjDown = \<lparr>mapFrom = ''jj'', mapTo = ''gj'', mapMode = ''insert''\<rparr>"

text \<open>The context after a first key was pressed at time \<open>t\<close>, now receiving the key \<open>k\<close>.\<close>

definition nextKey :: "string \<Rightarrow> error + keyctx \<Rightarrow> keyctx" where
  "nextKey k r = (case r of Inr cx \<Rightarrow> cx\<lparr>cxEvent := keyPress k\<rparr> | Inl _ \<Rightarrow> typing [] k [])"

text \<open>The context after \<open>j\<close> was typed into an empty editor at time 1000, receiving \<open>k\<close>.\<close>

definition jThen :: "mapping \<Rightarrow> string \<Rightarrow> keyctx" where
  "jThen m k = nextKey k (handleKeydown 1000 mainInput (typing [] ''j'' [m]))"

text \<open>The mode class the specification assigns to a reported mode.\<close>

definition modeClass :: "string \<Rightarrow> string" where
  "modeClass m =
     (if m = ''insert'' then ''vim-insert-mode''
      else if m = ''visual'' then ''vim-visual-mode'' else ''vim-normal-mode'')"


definition consumed :: "keyevent \<Rightarrow> keyevent" where
  "consumed ev = ev\<lparr>defaultPrevented := True, propagationStopped := True\<rparr>"


text \<open>
  A plugin whose only editor is the empty main chat editor while its cache still holds a
  draft for channel \<open>c1\<close>, and a host whose draft store has just received an emoji there.
\<close>

definition reloadingPlugin :: plugin where
  "reloadingPlugin =
     loadedPlugin\<lparr>draftCache := [''c1'' \<mapsto> ''hello''],
                  aceEditors := [(mainInput, \<lparr>edEditor = Some (lineEditor []), edVimMode = None\<rparr>)]\<rparr>"

definition chattingPlugin :: plugin where
  "chattingPlugin =
     loadedPlugin\<lparr>draftCache := [''c1'' \<mapsto> ''hello''],
                  aceEditors := [(mainInput, \<lparr>edEditor = Some (lineEditor ''hello''), edVimMode = None\<rparr>)]\<rparr>"

definition emojiHost :: host where
  "emojiHost = (hostIn ''c1'')\<lparr>drafts := [''c1'' \<mapsto> '':smile:'']\<rparr>"

text \<open>
  The world before the first \<open>start\<close>, given what the settings store holds; a network on
  which no script loads; and a settings object saved by an older version, with a nested
  \<open>settings\<close> object.
\<close>

definition freshWorld :: "jsval option \<Rightarrow> world" where
  "freshWorld saved =
     \<lparr>wPlugin = newPlugin allModules, wHost = hostIn ''c1'',
      wPage = \<lparr>windowAce = False, headScripts = [], wrappedInputs = [], textInputs = [mainInput]\<rparr>,
      wBd = \<lparr>dataConfig = saved, toasts = [], styles = [], dispatcher = True\<rparr>,
      wPreviousChannelId = None\<rparr>"

definition offline :: cdn where
  "offline = \<lparr>aceScriptLoads = False, aceScriptDefinesAce = False, vimScriptLoads = False\<rparr>"

definition nestedSaved :: jsval where
  "nestedSaved =
     JObj [(''settings'', JObj [(''fontSize'', JNum 20), (''debugMode'', JNull)]),
           (''fontSize'', JNum 12), (''debugMode'', JBool True)]"

text \<open>The toast \<open>start\<close> shows when the editor library could not be loaded.\<close>

definition loadFailedToast :: "string \<times> string" where
  "loadFailedToast = (''[VimMotions] Failed to load Ace Editor'', ''error'')"

text \<open>No field of a loaded configuration is \<open>null\<close>.\<close>

definition nonNull :: "config \<Rightarrow> bool" where
  "nonNull c =
     (debugMode c \<noteq> JNull \<and> fontSize c \<noteq> JNull \<and> fontFamily c \<noteq> JNull \<and>
      fontColor c \<noteq> JNull \<and> backgroundColor c \<noteq> JNull \<and> cursorColor c \<noteq> JNull \<and>
      highlightActiveLine c \<noteq> JNull \<and> sendInInsertMode c \<noteq> JNull \<and> sendInNormalMode c \<noteq> JNull)"

text \<open>Whether \<open>log\<close> also shows a toast: \<open>this.config?.debugMode\<close>.\<close>

definition debugOn :: "plugin \<Rightarrow> bool" where
  "debugOn self = (case config self of None \<Rightarrow> False | Some c \<Rightarrow> truthy (debugMode c))"


text \<open>The flat object that holds a configuration and the custom mappings in the store.\<close>

definition savedData :: "config \<Rightarrow> jsval \<Rightarrow> jsval" where
  "savedData c m =
     JObj [(''debugMode'', debugMode c), (''fontSize'', fontSize c),
           (''fontFamily'', fontFamily c), (''fontColor'', fontColor c),
           (''backgroundColor'', backgroundColor c), (''cursorColor'', cursorColor c),
           (''highlightActiveLine'', highlightActiveLine c),
           (''sendInInsertMode'', sendInInsertMode c),
           (''sendInNormalMode'', sendInNormalMode c), (''customMappings'', m)]"

text \<open>
  Further concrete states: a plugin like \<open>chattingPlugin\<close> for which the lookup of the
  host's draft actions found nothing; Enter pressed during composition; Enter pressed
  when the lookup of the host's message actions found nothing.
\<close>

definition detachedPlugin :: plugin where
  "detachedPlugin = chattingPlugin\<lparr>modules := allModules\<lparr>DraftActions := False\<rparr>\<rparr>"




section \<open>Properties\<close>

subsection \<open>Strings and the editor\<close>

lemma length_joinLines:
  "ls \<noteq> [] \<Longrightarrow> length (joinLines ls) + 1 = sum_list (map length ls) + length ls"
  by (induction ls rule: joinLines.induct) auto

lemma clippedPos_inDocument: "positionInDocument ls p \<Longrightarrow> clippedPos ls p = p"
  by (simp add: positionInDocument_def clippedPos_def Let_def min_def max_def)

lemma removeLines_same_row:
  assumes "row s = row e" "0 \<le> row e" "nat (row e) < length ls"
  shows "removeLines ls s e =
           ls[nat (row e) := take (nat (column s)) (ls ! nat (row e)) @
                             drop (nat (column e)) (ls ! nat (row e))]"
  using assms by (simp add: removeLines_def lineAt_def Let_def upd_conv_take_nth_drop)

lemma sum_list_update_length:
  "r < length ls \<Longrightarrow>
     sum_list (map length (ls[r := l'])) + length (ls ! r) = sum_list (map length ls) + length l'"
proof (induction ls arbitrary: r)
  case Nil
  then show ?case by simp
next
  case (Cons a ls)
  then show ?case by (cases r) auto
qed

lemma length_joinLines_update:
  assumes "r < length ls"
  shows "length (joinLines (ls[r := l'])) + length (ls ! r) = length (joinLines ls) + length l'"
proof -
  from assms have ne: "ls \<noteq> []" "ls[r := l'] \<noteq> []" by auto
  from length_joinLines[OF ne(1)] length_joinLines[OF ne(2)]
    sum_list_update_length[OF assms, of l']
  show ?thesis by simp
qed

subsection \<open>Removal of the typed prefix of a matched sequence\<close>

text \<open>
  C9. When \<open>handleKeySequence\<close> matches a sequence \<open>keys\<close> of length \<open>n\<close> and the cursor
  is at column \<open>c\<close> of row \<open>r\<close>, it returns \<open>true\<close> and the editor loses exactly
  \<open>k = min (n - 1) c\<close> characters, the ones in columns \<open>c - k\<close> to \<open>c\<close> of row \<open>r\<close>: every
  other row is untouched, the start column of the removed range is
  \<open>max 0 (c - (n - 1))\<close>, which is \<open>c - k\<close> and never negative, the cursor ends at that
  column of the same row, and for \<open>n = 1\<close> the editor is not touched at all.
\<close>

theorem handleKeySequence_removal:
  assumes inDoc: "cursorInDocument (cxEditor cx)"
      and scan: "scanSequences (currentMode (cxPlugin cx)) now (key (cxEvent cx)) seqs =
                   (seqs1, Some (keys, sq))"
  shows "fst (handleKeySequence now seqs cx) \<and>
         (let ed = cxEditor cx; ed' = cxEditor (snd (handleKeySequence now seqs cx));
              r = nat (row (cursor ed)); c = nat (column (cursor ed)); l = doc ed ! r;
              k = min (length keys - 1) c
          in doc ed' = (doc ed)[r := take (c - k) l @ drop c l]
           \<and> length (getValue ed') + k = length (getValue ed)
           \<and> (1 < length keys \<longrightarrow>
                max 0 (column (cursor ed) - (int (length keys) - 1)) = int (c - k))
           \<and> cursor ed' = \<lparr>row = row (cursor ed), column = int (c - k)\<rparr>
           \<and> (length keys \<le> 1 \<longrightarrow> ed' = ed))"
proof -
  define ed where "ed = cxEditor cx"
  define r where "r = nat (row (cursor ed))"
  define c where "c = nat (column (cursor ed))"
  define k where "k = min (length keys - 1) c"
  define l where "l = doc ed ! r"
  from inDoc have pid: "positionInDocument (doc ed) (cursor ed)"
    by (simp add: cursorInDocument_def ed_def)
  then have v0: "0 \<le> row (cursor ed)" "r < length (doc ed)" "0 \<le> column (cursor ed)"
    by (auto simp: positionInDocument_def r_def)
  from pid v0 have "column (cursor ed) \<le> int (length l)"
    by (simp add: positionInDocument_def lineAt_def r_def[symmetric] l_def)
  with v0 have v: "0 \<le> row (cursor ed)" "r < length (doc ed)" "0 \<le> column (cursor ed)"
    "c \<le> length l"
    by (auto simp: c_def)
  have cur: "cursor ed = \<lparr>row = int r, column = int c\<rparr>"
    using v by (simp add: r_def c_def)
  have sc: "1 < length keys \<Longrightarrow>
              max 0 (column (cursor ed) - (int (length keys) - 1)) = int (c - k)"
    using v by (auto simp: c_def k_def min_def max_def)
  have handled: "fst (handleKeySequence now seqs cx)"
    by (simp add: handleKeySequence_def scan Let_def split: prod.splits)
  have goal: "doc ed' = (doc ed)[r := take (c - k) l @ drop c l]
           \<and> length (getValue ed') + k = length (getValue ed)
           \<and> (1 < length keys \<longrightarrow>
                max 0 (column (cursor ed) - (int (length keys) - 1)) = int (c - k))
           \<and> cursor ed' = \<lparr>row = row (cursor ed), column = int (c - k)\<rparr>
           \<and> (length keys \<le> 1 \<longrightarrow> ed' = ed)"
    if "ed' = cxEditor (snd (handleKeySequence now seqs cx))" for ed'
  proof (cases "0 < int (length keys) - 1 \<and> 0 < c")
    case False
    then have k0: "k = 0" by (auto simp: k_def min_def)
    have noop: "cxEditor (snd (handleKeySequence now seqs cx)) = ed"
    proof (cases "0 < int (length keys) - 1")
      case False
      then show ?thesis
        by (simp add: handleKeySequence_def scan Let_def ed_def)
    next
      case True
      with \<open>\<not> (0 < int (length keys) - 1 \<and> 0 < c)\<close> have c0: "column (cursor ed) = 0"
        using v by (simp add: c_def)
      have "clippedPos (doc ed) \<lparr>row = row (cursor ed), column = 0\<rparr> = cursor ed"
        using clippedPos_inDocument[OF pid] c0 cur by simp
      then have "sessionRemove \<lparr>row = row (cursor ed), column = 0\<rparr> (cursor ed) ed = (False, ed)"
        by (simp add: sessionRemove_def Let_def clippedPos_inDocument[OF pid] posLess_def)
      with True c0 show ?thesis
        by (simp add: handleKeySequence_def scan Let_def ed_def[symmetric]
              getCursorPosition_def onChange_def)
    qed
    have "(doc ed)[r := take (c - k) l @ drop c l] = doc ed"
      using k0 v by (simp add: l_def)
    with noop k0 sc cur that show ?thesis
      by simp
  next
    case True
    then have kpos: "0 < k" "k \<le> c" "\<not> length keys \<le> 1" by (auto simp: k_def min_def)
    define s where "s = \<lparr>row = row (cursor ed), column = int (c - k)\<rparr>"
    have spid: "positionInDocument (doc ed) s"
      using pid kpos by (auto simp: positionInDocument_def s_def c_def)
    have less: "posLess s (cursor ed)"
      using kpos v by (auto simp: posLess_def s_def c_def)
    have rem0: "sessionRemove s (cursor ed) ed =
                 (True, ed\<lparr>doc := removeLines (doc ed) s (cursor ed),
                            cursor := cursorAfterRemove s (cursor ed) (cursor ed)\<rparr>)"
      using less
      by (simp add: sessionRemove_def Let_def clippedPos_inDocument[OF pid]
            clippedPos_inDocument[OF spid])
    have rl: "removeLines (doc ed) s (cursor ed) = (doc ed)[r := take (c - k) l @ drop c l]"
      using removeLines_same_row[of s "cursor ed" "doc ed"] v
      by (simp add: s_def r_def[symmetric] c_def[symmetric] l_def[symmetric])
    have ca: "cursorAfterRemove s (cursor ed) (cursor ed) = s"
      using less by (auto simp: cursorAfterRemove_def posLess_def s_def)
    have rem: "sessionRemove s (cursor ed) ed =
                 (True, ed\<lparr>doc := (doc ed)[r := take (c - k) l @ drop c l], cursor := s\<rparr>)"
      by (simp add: rem0 rl ca)
    have res: "cxEditor (snd (handleKeySequence now seqs cx)) =
                 ed\<lparr>doc := (doc ed)[r := take (c - k) l @ drop c l], cursor := s\<rparr>"
      using True rem sc
      by (simp add: handleKeySequence_def scan Let_def ed_def[symmetric] getCursorPosition_def
            onChange_def s_def split: prod.splits option.splits)
    have ll: "length (take (c - k) l @ drop c l) + k = length l"
      using v kpos by simp
    have len: "length (joinLines ((doc ed)[r := take (c - k) l @ drop c l])) + k =
                 length (joinLines (doc ed))"
      using length_joinLines_update[OF v(2), of "take (c - k) l @ drop c l"] ll
      unfolding l_def[symmetric] by linarith
    from res len sc kpos that show ?thesis
      by (simp add: getValue_def s_def)
  qed
  from handled goal[OF refl] show ?thesis
    unfolding Let_def ed_def r_def c_def k_def l_def by simp
qed

theorem handleKeySequence_removal_witness:
  "cursorInDocument (lineEditor ''abj'') \<and>
   fst (handleKeySequence 1500
          [(''jk'', \<lparr>buffer = [''j''], lastTime = 1000, timeout = 1000, action = ''<Esc>'',
                     mode = ''insert''\<rparr>)]
          (typing ''abj'' ''k'' [jkEsc])) \<and>
   doc (cxEditor (snd (handleKeySequence 1500
          [(''jk'', \<lparr>buffer = [''j''], lastTime = 1000, timeout = 1000, action = ''<Esc>'',
                     mode = ''insert''\<rparr>)]
          (typing ''abj'' ''k'' [jkEsc])))) = [''ab'']"
proof -
  have h1: "cursorInDocument (cxEditor (typing ''abj'' ''k'' [jkEsc]))"
    by (simp add: cursorInDocument_def positionInDocument_def typing_def lineEditor_def lineAt_def)
  have h2: "scanSequences (currentMode (cxPlugin (typing ''abj'' ''k'' [jkEsc]))) 1500
              (key (cxEvent (typing ''abj'' ''k'' [jkEsc])))
              [(''jk'', \<lparr>buffer = [''j''], lastTime = 1000, timeout = 1000, action = ''<Esc>'',
                         mode = ''insert''\<rparr>)]
            = ([(''jk'', \<lparr>buffer = [''j'', ''k''], lastTime = 1500, timeout = 1000,
                          action = ''<Esc>'', mode = ''insert''\<rparr>)],
               Some (''jk'', \<lparr>buffer = [''j'', ''k''], lastTime = 1500, timeout = 1000,
                              action = ''<Esc>'', mode = ''insert''\<rparr>))"
    by (simp add: typing_def loadedPlugin_def newPlugin_def keyPress_def Let_def startsWith_def)
  from handleKeySequence_removal[OF h1 h2] h1 show ?thesis
    by (simp add: typing_def lineEditor_def Let_def)
qed

subsection \<open>Routing of a keystroke\<close>

lemma handleKeySequence_unmatched:
  assumes "\<not> fst (handleKeySequence now ks cx)"
  shows "snd (handleKeySequence now ks cx) =
           cx\<lparr>cxKeySequences :=
                 Some (fst (scanSequences (currentMode (cxPlugin cx)) now (key (cxEvent cx)) ks))\<rparr>"
  using assms
  by (auto simp: handleKeySequence_def Let_def split: prod.splits option.splits)

lemma insertAtCursor_char:
  assumes "cursorInDocument ed" "ch \<noteq> CHR 0x0A"
  shows "doc (snd (insertAtCursor [ch] ed)) =
           (doc ed)[nat (row (cursor ed)) :=
              take (nat (column (cursor ed))) (doc ed ! nat (row (cursor ed))) @ [ch] @
              drop (nat (column (cursor ed))) (doc ed ! nat (row (cursor ed)))]"
proof -
  from assms(1) have pid: "positionInDocument (doc ed) (cursor ed)"
    by (simp add: cursorInDocument_def)
  then have r: "nat (row (cursor ed)) < length (doc ed)"
    by (auto simp: positionInDocument_def)
  have sp: "splitLines [ch] = [[ch]]" using assms(2) by simp
  show ?thesis
    using r assms(2)
    by (simp add: insertAtCursor_def clippedPos_inDocument[OF pid] insertLines_def Let_def
          lineAt_def upd_conv_take_nth_drop)
qed

lemma remove_before_cursor:
  assumes inDoc: "cursorInDocument ed" and m: "0 < m"
  shows "snd (sessionRemove \<lparr>row = row (cursor ed), column = max 0 (column (cursor ed) - m)\<rparr>
                (cursor ed) ed) =
           ed\<lparr>doc := (doc ed)[nat (row (cursor ed)) :=
                       take (nat (column (cursor ed)) - min (nat m) (nat (column (cursor ed))))
                         (doc ed ! nat (row (cursor ed))) @
                       drop (nat (column (cursor ed))) (doc ed ! nat (row (cursor ed)))],
              cursor := \<lparr>row = row (cursor ed),
                         column = int (nat (column (cursor ed)) -
                                       min (nat m) (nat (column (cursor ed))))\<rparr>\<rparr>"
proof -
  define r where "r = nat (row (cursor ed))"
  define c where "c = nat (column (cursor ed))"
  define k where "k = min (nat m) c"
  define l where "l = doc ed ! r"
  define s where "s = \<lparr>row = row (cursor ed), column = int (c - k)\<rparr>"
  from inDoc have pid: "positionInDocument (doc ed) (cursor ed)"
    by (simp add: cursorInDocument_def)
  then have v0: "0 \<le> row (cursor ed)" "r < length (doc ed)" "0 \<le> column (cursor ed)"
    by (auto simp: positionInDocument_def r_def)
  from pid v0 have "column (cursor ed) \<le> int (length l)"
    by (simp add: positionInDocument_def lineAt_def r_def[symmetric] l_def)
  with v0 have v: "c \<le> length l" by (auto simp: c_def)
  have cur: "cursor ed = \<lparr>row = int r, column = int c\<rparr>"
    using v0 by (simp add: r_def c_def)
  have sc: "max 0 (column (cursor ed) - m) = int (c - k)"
    using v0 m by (auto simp: c_def k_def min_def max_def)
  have spid: "positionInDocument (doc ed) s"
    using pid by (auto simp: positionInDocument_def s_def c_def)
  have upd: "(doc ed)[r := take (c - k) l @ drop c l] = doc ed" if "k = 0"
    using that v0 by (simp add: l_def)
  show ?thesis
  proof (cases "0 < c")
    case False
    then have k0: "k = 0" "c = 0" by (auto simp: k_def)
    have eq: "s = cursor ed" using k0 cur v0 by (simp add: s_def r_def)
    have "sessionRemove s (cursor ed) ed = (False, ed)"
      by (simp add: sessionRemove_def Let_def clippedPos_inDocument[OF pid] eq posLess_def)
    then show ?thesis
      using upd[OF k0(1)] k0 eq
      unfolding sc r_def[symmetric] c_def[symmetric] k_def[symmetric] l_def[symmetric]
        s_def[symmetric]
      by simp
  next
    case True
    then have kpos: "0 < k" "k \<le> c" using m by (auto simp: k_def)
    have less: "posLess s (cursor ed)"
      using kpos v0 by (auto simp: posLess_def s_def c_def)
    have rem0: "sessionRemove s (cursor ed) ed =
                 (True, ed\<lparr>doc := removeLines (doc ed) s (cursor ed),
                            cursor := cursorAfterRemove s (cursor ed) (cursor ed)\<rparr>)"
      using less
      by (simp add: sessionRemove_def Let_def clippedPos_inDocument[OF pid]
            clippedPos_inDocument[OF spid])
    have rl: "removeLines (doc ed) s (cursor ed) = (doc ed)[r := take (c - k) l @ drop c l]"
      using removeLines_same_row[of s "cursor ed" "doc ed"] v0
      by (simp add: s_def r_def[symmetric] c_def[symmetric] l_def[symmetric])
    have ca: "cursorAfterRemove s (cursor ed) (cursor ed) = s"
      using less by (auto simp: cursorAfterRemove_def posLess_def s_def)
    show ?thesis
      unfolding sc r_def[symmetric] c_def[symmetric] k_def[symmetric] l_def[symmetric]
        s_def[symmetric]
      by (simp add: rem0 rl ca)
  qed
qed

lemma handleKeySequence_matched:
  assumes "scanSequences (currentMode (cxPlugin cx)) now (key (cxEvent cx)) ks =
             (seqs1, Some (keys, sq))"
  shows "fst (handleKeySequence now ks cx)"
    and "cxEvent (snd (handleKeySequence now ks cx)) = consumed (cxEvent cx)"
    and "cxHost (snd (handleKeySequence now ks cx)) = cxHost cx"
    and "cxKeySequences (snd (handleKeySequence now ks cx)) = Some (clearSequences seqs1)"
    and "cxEditor (snd (handleKeySequence now ks cx)) =
           (if 1 < length keys then
              snd (sessionRemove
                     \<lparr>row = row (cursor (cxEditor cx)),
                      column = max 0 (column (cursor (cxEditor cx)) - (int (length keys) - 1))\<rparr>
                     (cursor (cxEditor cx)) (cxEditor cx))
            else cxEditor cx)"
  using assms
  by (simp_all add: handleKeySequence_def Let_def consumed_def getCursorPosition_def
        onChange_def case_prod_beta)

lemma handleKeySequence_fst:
  "fst (handleKeySequence now ks cx) =
     (snd (scanSequences (currentMode (cxPlugin cx)) now (key (cxEvent cx)) ks) \<noteq> None)"
  by (auto simp: handleKeySequence_def Let_def split: prod.splits option.splits)

text \<open>
  C1, as amended. A keydown on a destroyed editor or during composition is ignored. Enter
  without Shift is passed to \<open>handleEnterKey\<close>. Any other keydown that does not complete a
  multi-key sequence leaves the host and the engine alone and returns normally; if the
  mode is insert, the key is a single character, none of ctrl, alt and meta is held, and it
  is not a mode-change key in the just-entered window, the default handling is suppressed
  (\<open>preventDefault\<close>, \<open>stopPropagation\<close>) and the character is inserted at the cursor; otherwise
  nothing is inserted, the event is left as it was (so the key goes to the engine), and the
  plugin state is unchanged. A key completes a multi-key sequence exactly when the mode is
  insert, the key is a single character and the scan of the sequences with that key finds
  a match; such a key is consumed (\<open>preventDefault\<close>, \<open>stopPropagation\<close>) and not inserted:
  the host is left alone, all sequence buffers are cleared, and the editor is as before
  except that the characters typed before the key, one fewer than the length of the
  sequence and at most up to the start of the line, are removed before the cursor.
\<close>

theorem handleKeydown_routing:
  "(destroyed (cxEditor cx) \<or> isComposing (cxEvent cx) \<longrightarrow>
      handleKeydown now originalInput cx = Inr cx) \<and>
   (\<not> destroyed (cxEditor cx) \<and> \<not> isComposing (cxEvent cx) \<and>
    key (cxEvent cx) = ''Enter'' \<and> \<not> shiftKey (cxEvent cx) \<longrightarrow>
      handleKeydown now originalInput cx = handleEnterKey originalInput cx) \<and>
   (\<not> destroyed (cxEditor cx) \<and> \<not> isComposing (cxEvent cx) \<and>
    \<not> (key (cxEvent cx) = ''Enter'' \<and> \<not> shiftKey (cxEvent cx)) \<and>
    \<not> completesSequence now cx \<longrightarrow>
      \<not> isl (handleKeydown now originalInput cx) \<and>
      (let cx' = projr (handleKeydown now originalInput cx) in
       cxHost cx' = cxHost cx \<and> cxVimMode cx' = cxVimMode cx \<and>
       (if literalKey (cxPlugin cx) (cxEvent cx) then
          defaultPrevented (cxEvent cx') \<and> propagationStopped (cxEvent cx') \<and>
          cxEditor cx' = snd (insertAtCursor (key (cxEvent cx)) (cxEditor cx)) \<and>
          (cursorInDocument (cxEditor cx) \<and> key (cxEvent cx) \<noteq> [CHR 0x0A] \<longrightarrow>
             doc (cxEditor cx') =
               (doc (cxEditor cx))[nat (row (cursor (cxEditor cx))) :=
                  take (nat (column (cursor (cxEditor cx))))
                    (doc (cxEditor cx) ! nat (row (cursor (cxEditor cx)))) @
                  key (cxEvent cx) @
                  drop (nat (column (cursor (cxEditor cx))))
                    (doc (cxEditor cx) ! nat (row (cursor (cxEditor cx))))])
        else
          cxEditor cx' = cxEditor cx \<and> cxEvent cx' = cxEvent cx \<and> cxPlugin cx' = cxPlugin cx))) \<and>
   (\<not> destroyed (cxEditor cx) \<and> \<not> isComposing (cxEvent cx) \<and>
    currentMode (cxPlugin cx) = ''insert'' \<and> length (key (cxEvent cx)) = 1 \<and>
    cxKeySequences cx = Some ks \<and>
    scanSequences (currentMode (cxPlugin cx)) now (key (cxEvent cx)) ks =
      (seqs1, Some (keys, sq)) \<longrightarrow>
      completesSequence now cx \<and>
      handleKeydown now originalInput cx = Inr (snd (handleKeySequence now ks cx)) \<and>
      cxEvent (projr (handleKeydown now originalInput cx)) = consumed (cxEvent cx) \<and>
      cxHost (projr (handleKeydown now originalInput cx)) = cxHost cx \<and>
      cxKeySequences (projr (handleKeydown now originalInput cx)) = Some (clearSequences seqs1) \<and>
      cxEditor (projr (handleKeydown now originalInput cx)) =
        (if 1 < length keys then
           snd (sessionRemove
                  \<lparr>row = row (cursor (cxEditor cx)),
                   column = max 0 (column (cursor (cxEditor cx)) - (int (length keys) - 1))\<rparr>
                  (cursor (cxEditor cx)) (cxEditor cx))
         else cxEditor cx) \<and>
      (cursorInDocument (cxEditor cx) \<longrightarrow>
         doc (cxEditor (projr (handleKeydown now originalInput cx))) =
           (doc (cxEditor cx))[nat (row (cursor (cxEditor cx))) :=
              take (nat (column (cursor (cxEditor cx))) -
                    min (length keys - 1) (nat (column (cursor (cxEditor cx)))))
                (doc (cxEditor cx) ! nat (row (cursor (cxEditor cx)))) @
              drop (nat (column (cursor (cxEditor cx))))
                (doc (cxEditor cx) ! nat (row (cursor (cxEditor cx))))])) \<and>
   (completesSequence now cx \<longrightarrow>
      (\<exists>ks' seqs' keys' sq'. cxKeySequences cx = Some ks' \<and>
         currentMode (cxPlugin cx) = ''insert'' \<and> length (key (cxEvent cx)) = 1 \<and>
         scanSequences (currentMode (cxPlugin cx)) now (key (cxEvent cx)) ks' =
           (seqs', Some (keys', sq'))))"
  (is "?P1 \<and> ?P2 \<and> (?A3 \<longrightarrow> ?C3) \<and> (?A4 \<longrightarrow> ?C4) \<and> ?P5")
proof -
  have p1: ?P1
    by (auto simp: handleKeydown_def)
  have p2: ?P2
    by (simp add: handleKeydown_def)
  have p3: ?C3 if a: ?A3
  proof -
  define pre where "pre =
     (if currentMode (cxPlugin cx) = ''insert'' \<and> length (key (cxEvent cx)) = 1 then
        (case cxKeySequences cx of
           None \<Rightarrow> (False, cx)
         | Some keySequences \<Rightarrow> handleKeySequence now keySequences cx)
      else (False, cx))"
  have nf: "\<not> fst pre"
    using a by (auto simp: pre_def completesSequence_def split: option.splits)
  have same: "cxPlugin (snd pre) = cxPlugin cx \<and> cxEvent (snd pre) = cxEvent cx \<and>
              cxEditor (snd pre) = cxEditor cx \<and> cxHost (snd pre) = cxHost cx \<and>
              cxVimMode (snd pre) = cxVimMode cx"
  proof (cases "currentMode (cxPlugin cx) = ''insert'' \<and> length (key (cxEvent cx)) = 1")
    case False
    then show ?thesis by (auto simp: pre_def)
  next
    case True
    show ?thesis
    proof (cases "cxKeySequences cx")
      case None
      with True show ?thesis by (simp add: pre_def)
    next
      case (Some ks)
      with True have p: "pre = handleKeySequence now ks cx" by (simp add: pre_def)
      with nf have "\<not> fst (handleKeySequence now ks cx)" by simp
      from handleKeySequence_unmatched[OF this] p show ?thesis by simp
    qed
  qed
  have notProcess: "key (cxEvent cx) = ''Process'' \<Longrightarrow> \<not> literalKey (cxPlugin cx) (cxEvent cx)"
    by (simp add: literalKey_def)
  have hk: "handleKeydown now originalInput cx =
     (if key (cxEvent cx) = ''Process'' then Inr cx
      else if literalKey (cxPlugin cx) (cxEvent cx) then
        (let ev1 = (cxEvent cx)\<lparr>defaultPrevented := True, propagationStopped := True\<rparr>;
             (self1, ed1) = onChange (cxPlugin cx) (insertAtCursor (key (cxEvent cx)) (cxEditor cx))
         in Inr ((snd pre)\<lparr>cxPlugin := self1, cxEvent := ev1, cxEditor := ed1\<rparr>))
      else Inr (snd pre))"
    using a nf same
    unfolding handleKeydown_def pre_def[symmetric]
    by (auto simp: Let_def literalKey_def split: prod.splits)
  show ?thesis
  proof (cases "literalKey (cxPlugin cx) (cxEvent cx)")
    case False
    then show ?thesis using hk same by (auto simp: Let_def)
  next
    case True
    then have np: "key (cxEvent cx) \<noteq> ''Process''" using notProcess by blast
    from True obtain ch where ch: "key (cxEvent cx) = [ch]"
      by (auto simp: literalKey_def length_Suc_conv)
    have oc: "snd (onChange (cxPlugin cx) (insertAtCursor [ch] (cxEditor cx))) =
                snd (insertAtCursor [ch] (cxEditor cx))"
      by (simp add: onChange_def split: prod.splits)
    have res: "handleKeydown now originalInput cx =
        Inr ((snd pre)\<lparr>cxPlugin := fst (onChange (cxPlugin cx) (insertAtCursor [ch] (cxEditor cx))),
                       cxEvent := (cxEvent cx)\<lparr>defaultPrevented := True, propagationStopped := True\<rparr>,
                       cxEditor := snd (insertAtCursor [ch] (cxEditor cx))\<rparr>)"
      using hk True np ch oc by (simp add: Let_def split: prod.splits)
    have d: "cursorInDocument (cxEditor cx) \<and> [ch] \<noteq> [CHR 0x0A] \<Longrightarrow>
       doc (snd (insertAtCursor [ch] (cxEditor cx))) =
               (doc (cxEditor cx))[nat (row (cursor (cxEditor cx))) :=
                  take (nat (column (cursor (cxEditor cx))))
                    (doc (cxEditor cx) ! nat (row (cursor (cxEditor cx)))) @
                  [ch] @
                  drop (nat (column (cursor (cxEditor cx))))
                    (doc (cxEditor cx) ! nat (row (cursor (cxEditor cx))))]"
      using insertAtCursor_char[of "cxEditor cx" ch] by simp
    show ?thesis
      using True same d by (simp add: res ch Let_def)
  qed
  qed
  have p4: ?C4 if a: ?A4
  proof -
    from a have sc: "scanSequences (currentMode (cxPlugin cx)) now (key (cxEvent cx)) ks =
      (seqs1, Some (keys, sq))" by (elim conjE)
    note hm = handleKeySequence_matched[OF sc]
    have cs: "completesSequence now cx"
      using a hm(1) by (simp add: completesSequence_def)
    have notEnter: "key (cxEvent cx) \<noteq> ''Enter''" "key (cxEvent cx) \<noteq> ''Process''"
      using a by auto
    have hk: "handleKeydown now originalInput cx = Inr (snd (handleKeySequence now ks cx))"
      using a hm(1) notEnter
      by (simp add: handleKeydown_def Let_def case_prod_beta)
    have d: "doc (cxEditor (snd (handleKeySequence now ks cx))) =
           (doc (cxEditor cx))[nat (row (cursor (cxEditor cx))) :=
              take (nat (column (cursor (cxEditor cx))) -
                    min (length keys - 1) (nat (column (cursor (cxEditor cx)))))
                (doc (cxEditor cx) ! nat (row (cursor (cxEditor cx)))) @
              drop (nat (column (cursor (cxEditor cx))))
                (doc (cxEditor cx) ! nat (row (cursor (cxEditor cx))))]"
      if inDoc: "cursorInDocument (cxEditor cx)"
    proof (cases "1 < length keys")
      case True
      then have m: "0 < int (length keys) - 1" "nat (int (length keys) - 1) = length keys - 1"
        by auto
      from remove_before_cursor[OF inDoc m(1)] True show ?thesis
        by (simp add: hm(5) m(2))
    next
      case False
      from inDoc have "nat (row (cursor (cxEditor cx))) < length (doc (cxEditor cx))"
        by (auto simp: cursorInDocument_def positionInDocument_def)
      with False show ?thesis
        by (simp add: hm(5))
    qed
    from cs hk hm(2-5) d show ?thesis
      by simp
  qed
  have p5: ?P5
  proof
    assume c: "completesSequence now cx"
    then obtain ks' where k: "cxKeySequences cx = Some ks'"
      "currentMode (cxPlugin cx) = ''insert''" "length (key (cxEvent cx)) = 1"
      "fst (handleKeySequence now ks' cx)"
      by (auto simp: completesSequence_def split: option.splits)
    from k(4) obtain seqs' keys' sq' where
      "scanSequences (currentMode (cxPlugin cx)) now (key (cxEvent cx)) ks' =
         (seqs', Some (keys', sq'))"
      unfolding handleKeySequence_fst
      by (cases "scanSequences (currentMode (cxPlugin cx)) now (key (cxEvent cx)) ks'") auto
    with k(1-3) show "\<exists>ks' seqs' keys' sq'. cxKeySequences cx = Some ks' \<and>
         currentMode (cxPlugin cx) = ''insert'' \<and> length (key (cxEvent cx)) = 1 \<and>
         scanSequences (currentMode (cxPlugin cx)) now (key (cxEvent cx)) ks' =
           (seqs', Some (keys', sq'))"
      by blast
  qed
  from p3 have i3: "?A3 \<longrightarrow> ?C3" by (rule impI)
  from p4 have i4: "?A4 \<longrightarrow> ?C4" by (rule impI)
  from p1 p2 i3 i4 p5 show ?thesis by (intro conjI)
qed

theorem handleKeydown_routing_witness:
  "literalKey (cxPlugin (typing ''ab'' ''x'' [])) (cxEvent (typing ''ab'' ''x'' [])) \<and>
   \<not> completesSequence 1000 (typing ''ab'' ''x'' []) \<and>
   defaultPrevented (cxEvent (projr (handleKeydown 1000 mainInput (typing ''ab'' ''x'' [])))) \<and>
   doc (cxEditor (projr (handleKeydown 1000 mainInput (typing ''ab'' ''x'' [])))) = [''abx''] \<and>
   currentMode (cxPlugin (jThen jkEsc ''k'')) = ''insert'' \<and>
   length (key (cxEvent (jThen jkEsc ''k''))) = 1 \<and>
   completesSequence 1500 (jThen jkEsc ''k'') \<and>
   doc (cxEditor (jThen jkEsc ''k'')) = [''j''] \<and>
   defaultPrevented (cxEvent (projr (handleKeydown 1500 mainInput (jThen jkEsc ''k'')))) \<and>
   doc (cxEditor (projr (handleKeydown 1500 mainInput (jThen jkEsc ''k'')))) = [[]]"
proof -
  have h1: "\<not> destroyed (cxEditor (typing ''ab'' ''x'' []))"
    "\<not> isComposing (cxEvent (typing ''ab'' ''x'' []))"
    "\<not> (key (cxEvent (typing ''ab'' ''x'' [])) = ''Enter'' \<and>
        \<not> shiftKey (cxEvent (typing ''ab'' ''x'' [])))"
    by (simp_all add: typing_def keyPress_def lineEditor_def)
  have h2: "\<not> completesSequence 1000 (typing ''ab'' ''x'' [])"
    by code_simp
  have h3: "literalKey (cxPlugin (typing ''ab'' ''x'' [])) (cxEvent (typing ''ab'' ''x'' []))"
    by code_simp
  have h4: "cursorInDocument (cxEditor (typing ''ab'' ''x'' []))"
    "key (cxEvent (typing ''ab'' ''x'' [])) \<noteq> [CHR 0x0A]"
    by (simp_all add: cursorInDocument_def positionInDocument_def typing_def lineEditor_def
          lineAt_def keyPress_def)
  have r: "cxEditor (typing ''ab'' ''x'' []) = lineEditor ''ab''"
    "key (cxEvent (typing ''ab'' ''x'' [])) = ''x''"
    by (simp_all add: typing_def keyPress_def)
  from handleKeydown_routing[of "typing ''ab'' ''x'' []" 1000 mainInput] h1 h2 h3 h4
  have e: "defaultPrevented (cxEvent (projr (handleKeydown 1000 mainInput (typing ''ab'' ''x'' [])))) \<and>
        cxEditor (projr (handleKeydown 1000 mainInput (typing ''ab'' ''x'' []))) =
          snd (insertAtCursor ''x'' (lineEditor ''ab''))"
    by (simp add: Let_def r)
  have v: "doc (snd (insertAtCursor ''x'' (lineEditor ''ab''))) = [''abx'']"
    by code_simp
  have k1: "\<not> destroyed (cxEditor (jThen jkEsc ''k''))"
    "\<not> isComposing (cxEvent (jThen jkEsc ''k''))"
    "currentMode (cxPlugin (jThen jkEsc ''k'')) = ''insert''"
    "length (key (cxEvent (jThen jkEsc ''k''))) = 1"
    by code_simp+
  have k2: "cxKeySequences (jThen jkEsc ''k'') =
      Some [(''jk'', \<lparr>buffer = [''j''], lastTime = 1000, timeout = 1000, action = ''<Esc>'',
                      mode = ''insert''\<rparr>)]"
    by code_simp
  have k3: "scanSequences (currentMode (cxPlugin (jThen jkEsc ''k''))) 1500
              (key (cxEvent (jThen jkEsc ''k'')))
              [(''jk'', \<lparr>buffer = [''j''], lastTime = 1000, timeout = 1000, action = ''<Esc>'',
                        mode = ''insert''\<rparr>)] =
            ([(''jk'', \<lparr>buffer = [''j'', ''k''], lastTime = 1500, timeout = 1000,
                        action = ''<Esc>'', mode = ''insert''\<rparr>)],
             Some (''jk'', \<lparr>buffer = [''j'', ''k''], lastTime = 1500, timeout = 1000,
                        action = ''<Esc>'', mode = ''insert''\<rparr>))"
    by code_simp
  have k4: "cursorInDocument (cxEditor (jThen jkEsc ''k''))"
    by code_simp
  have k5: "doc (cxEditor (jThen jkEsc ''k'')) = [''j'']"
    "cursor (cxEditor (jThen jkEsc ''k'')) = \<lparr>row = 0, column = 1\<rparr>"
    by code_simp+
  have k6: "defaultPrevented (consumed (cxEvent (jThen jkEsc ''k'')))"
    by (simp add: consumed_def)
  from handleKeydown_routing[of "jThen jkEsc ''k''" 1500 mainInput
      "[(''jk'', \<lparr>buffer = [''j''], lastTime = 1000, timeout = 1000, action = ''<Esc>'',
                   mode = ''insert''\<rparr>)]"
      "[(''jk'', \<lparr>buffer = [''j'', ''k''], lastTime = 1500, timeout = 1000,
                        action = ''<Esc>'', mode = ''insert''\<rparr>)]"
      "''jk''"
      "\<lparr>buffer = [''j'', ''k''], lastTime = 1500, timeout = 1000,
                        action = ''<Esc>'', mode = ''insert''\<rparr>"] k1 k2 k3 k4
  have m: "completesSequence 1500 (jThen jkEsc ''k'') \<and>
      cxEvent (projr (handleKeydown 1500 mainInput (jThen jkEsc ''k''))) =
        consumed (cxEvent (jThen jkEsc ''k'')) \<and>
      doc (cxEditor (projr (handleKeydown 1500 mainInput (jThen jkEsc ''k'')))) =
           (doc (cxEditor (jThen jkEsc ''k'')))[nat (row (cursor (cxEditor (jThen jkEsc ''k'')))) :=
              take (nat (column (cursor (cxEditor (jThen jkEsc ''k'')))) -
                    min (length ''jk'' - 1) (nat (column (cursor (cxEditor (jThen jkEsc ''k''))))))
                (doc (cxEditor (jThen jkEsc ''k'')) ! nat (row (cursor (cxEditor (jThen jkEsc ''k''))))) @
              drop (nat (column (cursor (cxEditor (jThen jkEsc ''k'')))))
                (doc (cxEditor (jThen jkEsc ''k'')) ! nat (row (cursor (cxEditor (jThen jkEsc ''k'')))))]"
    by blast
  from m k5 k6 have n: "completesSequence 1500 (jThen jkEsc ''k'') \<and>
     defaultPrevented (cxEvent (projr (handleKeydown 1500 mainInput (jThen jkEsc ''k'')))) \<and>
     doc (cxEditor (projr (handleKeydown 1500 mainInput (jThen jkEsc ''k'')))) = [[]]"
    by simp
  from e v h2 h3 n k1 k5 show ?thesis
    by simp
qed

text \<open>
  The claim as first stated fails where a key completes a multi-key sequence: with the
  mapping \<open>jk\<close> to \<open><Esc>\<close>, after \<open>j\<close> was typed, the key \<open>k\<close> is a single character in
  insert mode with no modifier, yet it is not inserted; the \<open>j\<close> is removed instead.
\<close>

theorem handleKeydown_literal_counterexample:
  "literalKey (cxPlugin (jThen jkEsc ''k'')) (cxEvent (jThen jkEsc ''k'')) \<and>
   \<not> destroyed (cxEditor (jThen jkEsc ''k'')) \<and> \<not> isComposing (cxEvent (jThen jkEsc ''k'')) \<and>
   getValue (cxEditor (jThen jkEsc ''k'')) = ''j'' \<and>
   \<not> isl (handleKeydown 1500 mainInput (jThen jkEsc ''k'')) \<and>
   getValue (cxEditor (projr (handleKeydown 1500 mainInput (jThen jkEsc ''k'')))) = []"
  by code_simp

subsection \<open>Multi-key sequences\<close>

text \<open>
  C2. On a match the keystroke is consumed and the typed prefix removed, but only the
  action \<open><Esc>\<close> is carried out. With the mapping \<open>jj\<close> to \<open>gj\<close> in insert mode, typing
  \<open>j\<close>, \<open>j\<close> consumes the second key, removes the first \<open>j\<close> from the editor, and hands
  nothing to the engine; with \<open>jk\<close> to \<open><Esc>\<close> the engine receives \<open><Esc>\<close>.
\<close>

theorem handleKeySequence_unexecuted_action:
  "\<not> isl (handleKeydown 1500 mainInput (jThen jjDown ''j'')) \<and>
   getValue (cxEditor (jThen jjDown ''j'')) = ''j'' \<and>
   defaultPrevented (cxEvent (projr (handleKeydown 1500 mainInput (jThen jjDown ''j'')))) \<and>
   getValue (cxEditor (projr (handleKeydown 1500 mainInput (jThen jjDown ''j'')))) = [] \<and>
   cxVimMode (projr (handleKeydown 1500 mainInput (jThen jjDown ''j''))) =
     Some \<lparr>VimApi = True, handledKeys = []\<rparr> \<and>
   cxVimMode (projr (handleKeydown 1500 mainInput (jThen jkEsc ''k''))) =
     Some \<lparr>VimApi = True, handledKeys = [''<Esc>'']\<rparr>"
  by code_simp

subsection \<open>Enter: sending and editing\<close>













subsection \<open>Mode changes\<close>

lemma filter_modeClass_add:
  assumes "tok \<in> set modeClasses"
  shows "filter (\<lambda>c. c \<in> set modeClasses) (classListAdd tok (classListRemove modeClasses cl)) = [tok]"
    and "filter (\<lambda>c. c \<notin> set modeClasses) (classListAdd tok (classListRemove modeClasses cl)) =
           filter (\<lambda>c. c \<notin> set modeClasses) cl"
proof -
  have a: "tok \<notin> set (classListRemove modeClasses cl)"
    using assms by (simp add: classListRemove_def)
  have b: "filter (\<lambda>c. c \<in> set modeClasses) (classListRemove modeClasses cl) = []"
    by (simp add: classListRemove_def filter_empty_conv)
  have c: "filter (\<lambda>c. c \<notin> set modeClasses) (classListRemove modeClasses cl) =
             filter (\<lambda>c. c \<notin> set modeClasses) cl"
    by (simp add: classListRemove_def)
  show "filter (\<lambda>c. c \<in> set modeClasses) (classListAdd tok (classListRemove modeClasses cl)) = [tok]"
    using a b assms by (simp add: classListAdd_def)
  show "filter (\<lambda>c. c \<notin> set modeClasses) (classListAdd tok (classListRemove modeClasses cl)) =
           filter (\<lambda>c. c \<notin> set modeClasses) cl"
    using a c assms by (simp add: classListAdd_def)
qed

lemma modeClass_in: "modeClass m \<in> set modeClasses"
  by (simp add: modeClass_def modeClasses_def)

text \<open>
  C6, as amended. After a mode-change event the tracked mode is the mode the engine
  reported, whatever string that is. A change from \<open>normal\<close> to \<open>insert\<close> sets
  \<open>justEnteredInsertMode\<close>; any other change leaves the flag as it was. When the editor
  container is found, its class list afterwards holds exactly one of the three mode
  classes, once: the insert class for \<open>insert\<close>, the visual class for \<open>visual\<close>, the normal
  class for every other reported mode; its other classes are unchanged.
\<close>

theorem vimModeChange_tracks:
  "currentMode (fst (vimModeChange m (self, editorDiv))) = m \<and>
   (currentMode self = ''normal'' \<and> m = ''insert'' \<longrightarrow>
      justEnteredInsertMode (fst (vimModeChange m (self, editorDiv)))) \<and>
   (\<not> (currentMode self = ''normal'' \<and> m = ''insert'') \<longrightarrow>
      justEnteredInsertMode (fst (vimModeChange m (self, editorDiv))) = justEnteredInsertMode self) \<and>
   (editorDiv = None \<longrightarrow> snd (vimModeChange m (self, editorDiv)) = None) \<and>
   (\<forall>cl. editorDiv = Some cl \<longrightarrow>
      (\<exists>cl'. snd (vimModeChange m (self, editorDiv)) = Some cl' \<and>
             filter (\<lambda>c. c \<in> set modeClasses) cl' = [modeClass m] \<and>
             filter (\<lambda>c. c \<notin> set modeClasses) cl' = filter (\<lambda>c. c \<notin> set modeClasses) cl))"
proof -
  have cls: "snd (vimModeChange m (self, Some cl)) =
               Some (classListAdd (modeClass m) (classListRemove modeClasses cl))" for cl
    by (simp add: vimModeChange_def Let_def modeClass_def)
  show ?thesis
    using filter_modeClass_add[OF modeClass_in, of m]
    by (auto simp: cls) (auto simp: vimModeChange_def Let_def)
qed

theorem vimModeChange_tracks_witness:
  "currentMode (fst (vimModeChange ''insert''
      (loadedPlugin\<lparr>currentMode := ''normal''\<rparr>, Some [''vim-ace-editor'', ''vim-normal-mode''])))
     = ''insert'' \<and>
   justEnteredInsertMode (fst (vimModeChange ''insert''
      (loadedPlugin\<lparr>currentMode := ''normal''\<rparr>, Some [''vim-ace-editor'', ''vim-normal-mode'']))) \<and>
   (\<exists>cl'. snd (vimModeChange ''insert''
      (loadedPlugin\<lparr>currentMode := ''normal''\<rparr>, Some [''vim-ace-editor'', ''vim-normal-mode'']))
        = Some cl' \<and>
      filter (\<lambda>c. c \<in> set modeClasses) cl' = [''vim-insert-mode''] \<and>
      filter (\<lambda>c. c \<notin> set modeClasses) cl' = [''vim-ace-editor''])"
proof -
  have h1: "currentMode (loadedPlugin\<lparr>currentMode := ''normal''\<rparr>) = ''normal''"
    by simp
  have h2: "modeClass ''insert'' = ''vim-insert-mode''"
    by (simp add: modeClass_def)
  have h3: "filter (\<lambda>c. c \<notin> set modeClasses) [''vim-ace-editor'', ''vim-normal-mode''] =
              [''vim-ace-editor'']"
    by (simp add: modeClasses_def)
  from vimModeChange_tracks[of "''insert''" "loadedPlugin\<lparr>currentMode := ''normal''\<rparr>"
         "Some [''vim-ace-editor'', ''vim-normal-mode'']"] h1 h2 h3
  show ?thesis by simp
qed

text \<open>
  The claim as first stated fails on a mode outside the three: the engine reports
  \<open>replace\<close> when \<open>R\<close> is pressed in normal mode, and the tracked mode is then \<open>replace\<close>.
\<close>

theorem vimModeChange_replace_counterexample:
  "currentMode (fst (vimModeChange ''replace''
       (loadedPlugin\<lparr>currentMode := ''normal''\<rparr>, Some [''vim-ace-editor'', ''vim-normal-mode''])))
     \<notin> set [''insert'', ''normal'', ''visual'']"
  by code_simp

subsection \<open>Channel switches\<close>

lemma saveCurrentChannelDraft_content:
  "saveCurrentChannelDraft p (self, h) =
     (if \<not> DraftActions (modules self) then (self, h)
      else if trim (oldChannelContent self p) = []
      then (self\<lparr>draftCache := (draftCache self)(p := None)\<rparr>, clearDraft p h)
      else (self, saveDraft p (oldChannelContent self p) h))"
  by (auto simp: saveCurrentChannelDraft_def oldChannelContent_def Let_def split: option.splits)

text \<open>
  C3, as amended. On a channel-select event whose previous channel id exists and differs
  from the new one, and with the host's draft actions found: the content of the old channel
  is the cache entry if it is not empty, else the value of the main chat editor, else empty;
  if it is empty or white space only, the old channel's stored draft is cleared and its
  cache entry deleted, otherwise it is saved as the old channel's draft and the plugin is
  unchanged. If the channel id is unchanged, nothing is saved or cleared. If the draft
  actions were not found, or there is no previous channel id, nothing is saved or cleared
  either: plugin and host are as before. In every case the new id is remembered.
\<close>

theorem handleChannelChange_reconciles:
  "(truthyId prev = Some p \<and> prev \<noteq> selectedChannelId h \<and> DraftActions (modules self) \<longrightarrow>
      handleChannelChange (prev, self, h) =
        (selectedChannelId h,
         (if trim (oldChannelContent self p) = []
          then (self\<lparr>draftCache := (draftCache self)(p := None)\<rparr>, clearDraft p h)
          else (self, saveDraft p (oldChannelContent self p) h)))) \<and>
   drafts (clearDraft p h) p = None \<and>
   drafts (saveDraft p t h) p = Some t \<and>
   (prev = selectedChannelId h \<longrightarrow> handleChannelChange (prev, self, h) = (prev, self, h)) \<and>
   (\<not> DraftActions (modules self) \<or> truthyId prev = None \<longrightarrow>
      handleChannelChange (prev, self, h) = (selectedChannelId h, self, h))"
  by (auto simp: handleChannelChange_def saveCurrentChannelDraft_content clearDraft_def saveDraft_def
        Let_def split: option.splits)

theorem handleChannelChange_reconciles_witness:
  "truthyId (Some ''c1'') = Some ''c1'' \<and> Some ''c1'' \<noteq> selectedChannelId (hostIn ''c2'') \<and>
   DraftActions (modules chattingPlugin) \<and>
   drafts (snd (snd (handleChannelChange (Some ''c1'', chattingPlugin, hostIn ''c2'')))) ''c1'' = Some ''hello'' \<and>
   fst (handleChannelChange (Some ''c1'', chattingPlugin, hostIn ''c2'')) = Some ''c2'' \<and>
   \<not> DraftActions (modules detachedPlugin) \<and>
   drafts (snd (snd (handleChannelChange (Some ''c1'', detachedPlugin, hostIn ''c2'')))) ''c1'' = None"
proof -
  have h1: "truthyId (Some ''c1'') = Some ''c1''" by simp
  have h2: "Some ''c1'' \<noteq> selectedChannelId (hostIn ''c2'')" by (simp add: hostIn_def)
  have h3: "DraftActions (modules chattingPlugin)" by code_simp
  have h4: "oldChannelContent chattingPlugin ''c1'' = ''hello''" by code_simp
  have h5: "trim ''hello'' \<noteq> []" by code_simp
  have h6: "\<not> DraftActions (modules detachedPlugin)" by code_simp
  from handleChannelChange_reconciles[of "Some ''c1''" "''c1''" "hostIn ''c2''" chattingPlugin "''hello''"]
    h1 h2 h3 h4 h5
  have a: "drafts (snd (snd (handleChannelChange (Some ''c1'', chattingPlugin, hostIn ''c2'')))) ''c1'' = Some ''hello'' \<and>
   fst (handleChannelChange (Some ''c1'', chattingPlugin, hostIn ''c2'')) = Some ''c2''"
    by (simp add: hostIn_def)
  from handleChannelChange_reconciles[of "Some ''c1''" "''c1''" "hostIn ''c2''" detachedPlugin "''hello''"] h6
  have b: "drafts (snd (snd (handleChannelChange (Some ''c1'', detachedPlugin, hostIn ''c2'')))) ''c1'' = None"
    by (simp add: hostIn_def)
  from a b h1 h2 h3 h6 show ?thesis by simp
qed

text \<open>
  C3 as first stated, for every channel-select event with a previous id that differs, does
  not hold: without the host's draft actions the old channel has content, and after the
  switch the host has no draft for it.
\<close>

theorem handleChannelChange_module_counterexample:
  "truthyId (Some ''c1'') = Some ''c1'' \<and> Some ''c1'' \<noteq> selectedChannelId (hostIn ''c2'') \<and>
   \<not> DraftActions (modules detachedPlugin) \<and>
   oldChannelContent detachedPlugin ''c1'' = ''hello'' \<and> trim ''hello'' \<noteq> [] \<and>
   drafts (snd (snd (handleChannelChange (Some ''c1'', detachedPlugin, hostIn ''c2'')))) ''c1'' = None"
  by code_simp

subsection \<open>Draft changes made by the host\<close>

lemma findMainChatEditor_update:
  "findMainChatEditor xs = Some e \<Longrightarrow> findMainChatEditor (updateMainChatEditor new xs) = Some new"
  by (induction xs rule: findMainChatEditor.induct) (auto split: if_splits)

lemma onChange_fields:
  "aceEditors (fst (onChange self r)) = aceEditors self"
  "lastProcessedDraft (fst (onChange self r)) = lastProcessedDraft self"
  "modules (fst (onChange self r)) = modules self"
  "snd (onChange self r) = snd r"
  by (auto simp: onChange_def split: prod.splits option.splits)

lemma trim_Nil: "trim [] = []"
  by (simp add: trim_def)

text \<open>
  C4, as amended. For a draft-change event for the selected channel, with the host
  modules found and a main chat editor present: nothing is inserted if the draft is
  missing, blank, equal to the last processed draft, or (trimmed) contained in the editor's
  text, and also if the editor is blank while the cache holds a non-blank draft for the
  channel. Otherwise the new content is the trimmed rest of the draft behind the last
  processed draft when that is a non-empty prefix of it, else the whole trimmed draft; if
  it is not empty it is inserted at the cursor, the draft is recorded as last processed,
  the host draft is cleared and the cache entry of the channel becomes the editor's value.
\<close>

theorem handleDraftChange_inserts:
  assumes mods: "SelectedChannelStore (modules self)" "DraftStore (modules self)"
    "DraftActions (modules self)"
      and cur: "selectedChannelId h = Some c" "c \<noteq> []" "dataChannelId = Some c"
      and act: "findMainChatEditor (aceEditors self) = Some ed"
  shows
    "(getDraft c h = None \<longrightarrow> handleDraftChange dataChannelId (self, h) = (self, h)) \<and>
     (\<forall>d. getDraft c h = Some d \<longrightarrow>
        (let last = (case lastProcessedDraft self c of None \<Rightarrow> [] | Some t \<Rightarrow> t);
             r = handleDraftChange dataChannelId (self, h);
             blankGuard = (trim (getValue ed) = [] \<and>
                           (case draftCache self c of None \<Rightarrow> False | Some t \<Rightarrow> trim t \<noteq> []));
             newContent = (if last \<noteq> [] \<and> startsWith d last
                           then trim (drop (length last) d) else trim d)
         in (trim d = [] \<or> d = last \<longrightarrow> r = (self, h)) \<and>
            (trim d \<noteq> [] \<and> d \<noteq> last \<and> includesStr (getValue ed) (trim d) \<longrightarrow>
               r = (self\<lparr>lastProcessedDraft := (lastProcessedDraft self)(c \<mapsto> d)\<rparr>,
                    clearDraft c h)) \<and>
            (trim d \<noteq> [] \<and> d \<noteq> last \<and> \<not> includesStr (getValue ed) (trim d) \<longrightarrow>
               (blankGuard \<longrightarrow> r = (self, h)) \<and>
               (\<not> blankGuard \<and> newContent = [] \<longrightarrow>
                  r = (self\<lparr>lastProcessedDraft := (lastProcessedDraft self)(c \<mapsto> d)\<rparr>, h)) \<and>
               (\<not> blankGuard \<and> newContent \<noteq> [] \<longrightarrow>
                  findMainChatEditor (aceEditors (fst r)) =
                    Some (snd (insertAtCursor newContent ed)) \<and>
                  lastProcessedDraft (fst r) c = Some d \<and>
                  drafts (snd r) c = None \<and>
                  draftCache (fst r) c = Some (getValue (snd (insertAtCursor newContent ed)))))))"
  (is "?N \<and> ?S")
proof -
  have pre: "getCurrentChannelId self h = Inr (Some c)" "truthyId (Some c) = Some c"
    using mods cur by (simp_all add: getCurrentChannelId_def)
  have n: ?N
    using pre cur mods by (simp add: handleDraftChange_def)
  have s: ?S
  proof (intro allI impI)
    fix d assume d: "getDraft c h = Some d"
    define last where "last = (case lastProcessedDraft self c of None \<Rightarrow> [] | Some t \<Rightarrow> t)"
    define blankGuard where "blankGuard = (trim (getValue ed) = [] \<and>
                           (case draftCache self c of None \<Rightarrow> False | Some t \<Rightarrow> trim t \<noteq> []))"
    define newContent where "newContent = (if last \<noteq> [] \<and> startsWith d last
                           then trim (drop (length last) d) else trim d)"
    define r where "r = handleDraftChange dataChannelId (self, h)"
    have bg: "((getValue ed = [] \<or> trim (getValue ed) = []) \<and>
               (case draftCache self c of None \<Rightarrow> False | Some t \<Rightarrow> trim t \<noteq> [])) = blankGuard"
      using trim_Nil by (auto simp: blankGuard_def)
    have dn: "(d = [] \<or> trim d = []) = (trim d = [])"
      using trim_Nil by auto
    have r1: "trim d = [] \<or> d = last \<Longrightarrow> r = (self, h)"
      using pre cur mods d dn
      by (auto simp: r_def handleDraftChange_def Let_def last_def)
    have base: "trim d \<noteq> [] \<Longrightarrow> d \<noteq> last \<Longrightarrow> r =
       (if includesStr (getValue ed) (trim d) then
          (self\<lparr>lastProcessedDraft := (lastProcessedDraft self)(c \<mapsto> d)\<rparr>, clearDraft c h)
        else if blankGuard then (self, h)
        else if newContent = [] then
          (self\<lparr>lastProcessedDraft := (lastProcessedDraft self)(c \<mapsto> d)\<rparr>, h)
        else
          (let (self1, ed1) = onChange self (insertAtCursor newContent ed);
               self2 = self1\<lparr>aceEditors := updateMainChatEditor ed1 (aceEditors self1),
                          lastProcessedDraft := (lastProcessedDraft self1)(c \<mapsto> d)\<rparr>
           in (self2\<lparr>draftCache := (draftCache self2)(c \<mapsto> getValue ed1)\<rparr>, clearDraft c h)))"
      using pre cur mods d dn act
      unfolding r_def handleDraftChange_def
      by (simp add: Let_def last_def[symmetric] bg newContent_def[symmetric] del: split_paired_All)
    have r4: "findMainChatEditor (aceEditors (fst r)) = Some (snd (insertAtCursor newContent ed)) \<and>
              lastProcessedDraft (fst r) c = Some d \<and> drafts (snd r) c = None \<and>
              draftCache (fst r) c = Some (getValue (snd (insertAtCursor newContent ed)))"
      if "trim d \<noteq> []" "d \<noteq> last" "\<not> includesStr (getValue ed) (trim d)" "\<not> blankGuard"
         "newContent \<noteq> []"
    proof -
      obtain self1 ed1 where oc: "onChange self (insertAtCursor newContent ed) = (self1, ed1)"
        by (cases "onChange self (insertAtCursor newContent ed)")
      from oc onChange_fields[of self "insertAtCursor newContent ed"]
      have f: "aceEditors self1 = aceEditors self" "ed1 = snd (insertAtCursor newContent ed)"
        by simp_all
      from base[OF that(1,2)] that(3-5) oc
      have "r = (self1\<lparr>aceEditors := updateMainChatEditor ed1 (aceEditors self1),
                      lastProcessedDraft := (lastProcessedDraft self1)(c \<mapsto> d),
                      draftCache := (draftCache self1)(c \<mapsto> getValue ed1)\<rparr>, clearDraft c h)"
        by (simp add: Let_def)
      then show ?thesis
        using f findMainChatEditor_update[OF act, of ed1]
        by (simp add: clearDraft_def)
    qed
    show "let last = (case lastProcessedDraft self c of None \<Rightarrow> [] | Some t \<Rightarrow> t);
             r = handleDraftChange dataChannelId (self, h);
             blankGuard = (trim (getValue ed) = [] \<and>
                           (case draftCache self c of None \<Rightarrow> False | Some t \<Rightarrow> trim t \<noteq> []));
             newContent = (if last \<noteq> [] \<and> startsWith d last
                           then trim (drop (length last) d) else trim d)
         in (trim d = [] \<or> d = last \<longrightarrow> r = (self, h)) \<and>
            (trim d \<noteq> [] \<and> d \<noteq> last \<and> includesStr (getValue ed) (trim d) \<longrightarrow>
               r = (self\<lparr>lastProcessedDraft := (lastProcessedDraft self)(c \<mapsto> d)\<rparr>,
                    clearDraft c h)) \<and>
            (trim d \<noteq> [] \<and> d \<noteq> last \<and> \<not> includesStr (getValue ed) (trim d) \<longrightarrow>
               (blankGuard \<longrightarrow> r = (self, h)) \<and>
               (\<not> blankGuard \<and> newContent = [] \<longrightarrow>
                  r = (self\<lparr>lastProcessedDraft := (lastProcessedDraft self)(c \<mapsto> d)\<rparr>, h)) \<and>
               (\<not> blankGuard \<and> newContent \<noteq> [] \<longrightarrow>
                  findMainChatEditor (aceEditors (fst r)) =
                    Some (snd (insertAtCursor newContent ed)) \<and>
                  lastProcessedDraft (fst r) c = Some d \<and>
                  drafts (snd r) c = None \<and>
                  draftCache (fst r) c = Some (getValue (snd (insertAtCursor newContent ed)))))"
      unfolding Let_def last_def[symmetric] r_def[symmetric] blankGuard_def[symmetric]
        newContent_def[symmetric]
      using r1 base r4 by auto
  qed
  from n s show ?thesis by (rule conjI)
qed

theorem handleDraftChange_inserts_witness:
  "findMainChatEditor (aceEditors chattingPlugin) = Some (lineEditor ''hello'') \<and>
   getDraft ''c1'' emojiHost = Some '':smile:'' \<and>
   map_option getValue
     (findMainChatEditor
        (aceEditors (fst (handleDraftChange (Some ''c1'') (chattingPlugin, emojiHost))))) =
     Some ''hello:smile:'' \<and>
   lastProcessedDraft (fst (handleDraftChange (Some ''c1'') (chattingPlugin, emojiHost))) ''c1'' =
     Some '':smile:'' \<and>
   drafts (snd (handleDraftChange (Some ''c1'') (chattingPlugin, emojiHost))) ''c1'' = None \<and>
   draftCache (fst (handleDraftChange (Some ''c1'') (chattingPlugin, emojiHost))) ''c1'' =
     Some ''hello:smile:''"
proof -
  have m: "SelectedChannelStore (modules chattingPlugin)" "DraftStore (modules chattingPlugin)"
    "DraftActions (modules chattingPlugin)"
    by code_simp+
  have c: "selectedChannelId emojiHost = Some ''c1''" "''c1'' \<noteq> []"
    by (simp_all add: emojiHost_def hostIn_def)
  have a: "findMainChatEditor (aceEditors chattingPlugin) = Some (lineEditor ''hello'')"
    by (simp add: chattingPlugin_def loadedPlugin_def newPlugin_def mainInput_def isEditMode_def)
  have d: "getDraft ''c1'' emojiHost = Some '':smile:''"
    by (simp add: getDraft_def emojiHost_def hostIn_def)
  have l: "lastProcessedDraft chattingPlugin ''c1'' = None"
    by (simp add: chattingPlugin_def loadedPlugin_def newPlugin_def)
  have t: "trim '':smile:'' = '':smile:''"
    by code_simp
  have i: "\<not> includesStr (getValue (lineEditor ''hello'')) '':smile:''"
    by code_simp
  have g: "trim (getValue (lineEditor ''hello'')) \<noteq> []"
    by code_simp
  have v: "getValue (snd (insertAtCursor '':smile:'' (lineEditor ''hello''))) = ''hello:smile:''"
    by code_simp
  from handleDraftChange_inserts[OF m c refl a] d
  have "(let last = (case lastProcessedDraft chattingPlugin ''c1'' of None \<Rightarrow> [] | Some t \<Rightarrow> t);
             r = handleDraftChange (Some ''c1'') (chattingPlugin, emojiHost);
             blankGuard = (trim (getValue (lineEditor ''hello'')) = [] \<and>
                           (case draftCache chattingPlugin ''c1'' of None \<Rightarrow> False
                            | Some t \<Rightarrow> trim t \<noteq> []));
             newContent = (if last \<noteq> [] \<and> startsWith '':smile:'' last
                           then trim (drop (length last) '':smile:'') else trim '':smile:'')
         in (trim '':smile:'' \<noteq> [] \<and> '':smile:'' \<noteq> last \<and>
             \<not> includesStr (getValue (lineEditor ''hello'')) (trim '':smile:'') \<longrightarrow>
               (\<not> blankGuard \<and> newContent \<noteq> [] \<longrightarrow>
                  findMainChatEditor (aceEditors (fst r)) =
                    Some (snd (insertAtCursor newContent (lineEditor ''hello''))) \<and>
                  lastProcessedDraft (fst r) ''c1'' = Some '':smile:'' \<and>
                  drafts (snd r) ''c1'' = None \<and>
                  draftCache (fst r) ''c1'' =
                    Some (getValue (snd (insertAtCursor newContent (lineEditor ''hello'')))))))"
    by (simp add: Let_def)
  with l t i g v a d show ?thesis
    by (simp add: Let_def)
qed

text \<open>
  The claim as first stated fails on the guard for a channel that is being loaded: the
  editor is still empty, the cache holds \<open>hello\<close> for the channel, the draft \<open>:smile:\<close> is
  not blank, was not processed before and is not contained in the editor, and yet nothing
  is inserted and the host draft stays.
\<close>

theorem handleDraftChange_guard_counterexample:
  "selectedChannelId emojiHost = Some ''c1'' \<and>
   getDraft ''c1'' emojiHost = Some '':smile:'' \<and>
   trim '':smile:'' \<noteq> [] \<and>
   lastProcessedDraft reloadingPlugin ''c1'' = None \<and>
   map_option getValue (findMainChatEditor (aceEditors reloadingPlugin)) = Some [] \<and>
   \<not> includesStr [] '':smile:'' \<and>
   map_option getValue
     (findMainChatEditor (aceEditors (fst (handleDraftChange (Some ''c1'') (reloadingPlugin, emojiHost)))))
     = Some [] \<and>
   getDraft ''c1'' (snd (handleDraftChange (Some ''c1'') (reloadingPlugin, emojiHost))) = Some '':smile:''"
  by code_simp

subsection \<open>Draft state is keyed by channel\<close>

lemma onChange_frame:
  assumes "cachedChannelId (snd r) \<noteq> Some c2"
  shows "draftCache (fst (onChange self r)) c2 = draftCache self c2"
  using assms
  by (cases r; cases "cachedChannelId (snd r)")
     (auto simp: onChange_def split: if_splits)

lemma setValue_cached: "cachedChannelId (snd (setValue t ed)) = cachedChannelId ed"
  by (simp add: setValue_def)

lemma setContent_frame:
  assumes "cachedChannelId ed \<noteq> Some c2"
  shows "draftCache (fst (setContent t (self, ed))) c2 = draftCache self c2"
    and "lastProcessedDraft (fst (setContent t (self, ed))) = lastProcessedDraft self"
proof -
  have "cachedChannelId (snd (setValue t ed)) \<noteq> Some c2"
    using assms by (simp add: setValue_cached)
  from onChange_frame[OF this, of self]
  show "draftCache (fst (setContent t (self, ed))) c2 = draftCache self c2"
    by (simp add: setContent_def case_prod_beta)
  show "lastProcessedDraft (fst (setContent t (self, ed))) = lastProcessedDraft self"
    using onChange_fields(2)[of self "setValue t ed"]
    by (simp add: setContent_def case_prod_beta)
qed

lemma loadFallback_frame:
  assumes "cachedChannelId ed \<noteq> Some c2"
  shows "draftCache (fst (loadFallback i (self, ed))) c2 = draftCache self c2"
    and "lastProcessedDraft (fst (loadFallback i (self, ed))) = lastProcessedDraft self"
  using setContent_frame[OF assms]
  by (simp_all add: loadFallback_def Let_def)

lemma newEditor_cached:
  assumes "newEditor i self h = Inr ed"
  shows "cachedChannelId ed = None \<or> cachedChannelId ed = selectedChannelId h"
  using assms
  by (auto simp: newEditor_def getCurrentChannelId_def split: if_splits sum.splits)

lemma loadInitialContent_frame:
  assumes ed: "cachedChannelId ed \<noteq> Some c2" and sel: "selectedChannelId h \<noteq> Some c2"
  shows "draftCache (fst (loadInitialContent ed i self h)) c2 = draftCache self c2"
    and "lastProcessedDraft (fst (loadInitialContent ed i self h)) = lastProcessedDraft self"
proof -
  note f = setContent_frame[OF ed] loadFallback_frame[OF ed]
  have ne: "truthyId (selectedChannelId h) = Some c \<Longrightarrow> c \<noteq> c2" for c
    using sel by (cases "selectedChannelId h") (auto split: if_splits)
  show "draftCache (fst (loadInitialContent ed i self h)) c2 = draftCache self c2"
    using f ne
    by (auto simp: loadInitialContent_def getCurrentChannelId_def Let_def case_prod_beta
          split: sum.splits option.splits)
  show "lastProcessedDraft (fst (loadInitialContent ed i self h)) = lastProcessedDraft self"
    using f
    by (auto simp: loadInitialContent_def getCurrentChannelId_def Let_def case_prod_beta
          split: sum.splits option.splits)
qed

text \<open>
  C7. For distinct channel ids \<open>c1\<close> and \<open>c2\<close>: \<open>saveCurrentChannelDraft\<close> for \<open>c1\<close>, and,
  while \<open>c1\<close> is the selected channel, \<open>sendMessage\<close> with its clean-up and
  \<open>loadInitialContent\<close> on the editor just created for the input, leave the cache entry, the
  last-processed entry and the stored draft of \<open>c2\<close> as they were (\<open>loadInitialContent\<close>
  only reads the host).
\<close>

theorem drafts_keyed_per_channel:
  assumes "c1 \<noteq> c2"
  shows
    "draftCache (fst (saveCurrentChannelDraft c1 (self, h))) c2 = draftCache self c2 \<and>
     lastProcessedDraft (fst (saveCurrentChannelDraft c1 (self, h))) c2 = lastProcessedDraft self c2 \<and>
     drafts (snd (saveCurrentChannelDraft c1 (self, h))) c2 = drafts h c2 \<and>
     (selectedChannelId h = Some c1 \<longrightarrow>
        draftCache (fst (sendMessage content (self, h))) c2 = draftCache self c2 \<and>
        lastProcessedDraft (fst (sendMessage content (self, h))) c2 = lastProcessedDraft self c2 \<and>
        drafts (snd (sendMessage content (self, h))) c2 = drafts h c2 \<and>
        (\<forall>ed. newEditor originalInput self h = Inr ed \<longrightarrow>
           draftCache (fst (loadInitialContent ed originalInput self h)) c2 = draftCache self c2 \<and>
           lastProcessedDraft (fst (loadInitialContent ed originalInput self h)) c2 =
             lastProcessedDraft self c2))"
  (is "?A \<and> ?B \<and> ?C \<and> (?S \<longrightarrow> ?D)")
proof -
  have abc: "?A \<and> ?B \<and> ?C"
    using assms
    by (auto simp: saveCurrentChannelDraft_content clearDraft_def saveDraft_def)
  have d: ?D if s: ?S
  proof -
    have sm: "draftCache (fst (sendMessage content (self, h))) c2 = draftCache self c2 \<and>
        lastProcessedDraft (fst (sendMessage content (self, h))) c2 = lastProcessedDraft self c2 \<and>
        drafts (snd (sendMessage content (self, h))) c2 = drafts h c2"
      using assms s
      by (auto simp: sendMessage_def getCurrentChannelId_def clearDraft_def Let_def
            split: option.splits if_splits)
    have li: "draftCache (fst (loadInitialContent ed originalInput self h)) c2 = draftCache self c2 \<and>
           lastProcessedDraft (fst (loadInitialContent ed originalInput self h)) c2 =
             lastProcessedDraft self c2"
      if "newEditor originalInput self h = Inr ed" for ed
    proof -
      from newEditor_cached[OF that] s assms have e: "cachedChannelId ed \<noteq> Some c2" by auto
      from s assms have h: "selectedChannelId h \<noteq> Some c2" by simp
      from loadInitialContent_frame[OF e h] show ?thesis by simp
    qed
    from sm li show ?thesis by blast
  qed
  from abc d show ?thesis by blast
qed

theorem drafts_keyed_per_channel_witness:
  "''c1'' \<noteq> ''c2'' \<and> selectedChannelId (hostIn ''c1'') = Some ''c1'' \<and>
   draftCache (fst (saveCurrentChannelDraft ''c1'' (chattingPlugin, hostIn ''c1''))) ''c2'' = None \<and>
   drafts (snd (sendMessage ''hi'' (chattingPlugin, hostIn ''c1''))) ''c2'' = None \<and>
   lastProcessedDraft (fst (sendMessage ''hi'' (chattingPlugin, hostIn ''c1''))) ''c2'' = None"
proof -
  have h1: "''c1'' \<noteq> ''c2''" by simp
  have h2: "selectedChannelId (hostIn ''c1'') = Some ''c1''" by (simp add: hostIn_def)
  have h3: "draftCache chattingPlugin ''c2'' = None" "lastProcessedDraft chattingPlugin ''c2'' = None"
    "drafts (hostIn ''c1'') ''c2'' = None"
    by (simp_all add: chattingPlugin_def loadedPlugin_def newPlugin_def hostIn_def)
  from drafts_keyed_per_channel[OF h1, of chattingPlugin "hostIn ''c1''" "''hi''" mainInput] h2 h3
  show ?thesis by simp
qed

subsection \<open>Loading the settings\<close>

lemma orElse_nullish:
  "orElse (nullish a b) d = (if present a then the a else if present b then the b else d)"
proof (cases a)
  case None
  then show ?thesis
  proof (cases b)
    case None
    with \<open>a = None\<close> show ?thesis by simp
  next
    case (Some v)
    with \<open>a = None\<close> show ?thesis by (cases v) simp_all
  qed
next
  case (Some v)
  then show ?thesis
  proof (cases v)
    case JNull
    with Some show ?thesis
    proof (cases b)
      case None
      with Some JNull show ?thesis by simp
    next
      case (Some u)
      with \<open>a = Some v\<close> JNull show ?thesis by (cases u) simp_all
    qed
  qed simp_all
qed

lemma pick_specField: "pick saved name d = specField saved name d"
  by (simp add: pick_def specField_def orElse_nullish)

lemma orElse_nonnull: "d \<noteq> JNull \<Longrightarrow> orElse x d \<noteq> JNull"
  by (induction x d rule: orElse.induct) auto

lemma orElse_Some: "v \<noteq> JNull \<Longrightarrow> orElse (Some v) d = v"
  by (cases v) auto

lemma nullish_Some: "v \<noteq> JNull \<Longrightarrow> nullish (Some v) y = Some v"
  by (cases v) auto

lemma loadConfig_result:
  "\<exists>self' bd' c. loadConfig (self, bd) = Inr (self', bd') \<and> config self' = Some c \<and> nonNull c \<and>
     customMappings self' \<noteq> JNull \<and>
     saveConfig (self', bd) = Inr (self', bd') \<and>
     c = (case dataConfig bd of None \<Rightarrow> defaultConfig
          | Some saved \<Rightarrow> if truthy saved then specConfig saved else defaultConfig) \<and>
     (dataConfig bd = None \<or> (\<exists>v. dataConfig bd = Some v \<and> \<not> truthy v) \<longrightarrow>
        customMappings self' = JArr [])"
  by (auto simp: loadConfig_def saveConfig_def Let_def nonNull_def defaultConfig_def
        pick_specField[symmetric] specConfig_def pick_def orElse_nonnull split: option.splits)

lemma saveConfig_dataConfig:
  "saveConfig (self, bd) = Inr (self', bd') \<Longrightarrow> saveConfig (self, bd') = Inr (self', bd')"
  by (auto simp: saveConfig_def Let_def split: option.splits)

lemma reload:
  assumes "config self = Some c" "nonNull c" "customMappings self \<noteq> JNull"
    and "saveConfig (self, bd0) = Inr (self, bd)"
  shows "loadConfig (self, bd) = Inr (self, bd)"
proof -
  from assms(1,4) have dc: "dataConfig bd = Some (JObj [(''debugMode'', debugMode c), (''fontSize'', fontSize c),
                          (''fontFamily'', fontFamily c), (''fontColor'', fontColor c),
                          (''backgroundColor'', backgroundColor c),
                          (''cursorColor'', cursorColor c),
                          (''highlightActiveLine'', highlightActiveLine c),
                          (''sendInInsertMode'', sendInInsertMode c),
                          (''sendInNormalMode'', sendInNormalMode c),
                          (''customMappings'', customMappings self)])"
    by (auto simp: saveConfig_def Let_def)
  have s: "saveConfig (self, bd) = Inr (self, bd)"
    using saveConfig_dataConfig[OF assms(4)] .
  have c: "\<lparr>debugMode = debugMode c, fontSize = fontSize c, fontFamily = fontFamily c,
            fontColor = fontColor c, backgroundColor = backgroundColor c, cursorColor = cursorColor c,
            highlightActiveLine = highlightActiveLine c, sendInInsertMode = sendInInsertMode c,
            sendInNormalMode = sendInNormalMode c\<rparr> = c"
    by simp
  have u: "self\<lparr>config := Some c, customMappings := customMappings self\<rparr> = self"
    using assms(1) by simp
  show ?thesis
    using assms(2,3)
    by (simp add: loadConfig_def dc Let_def pick_def nonNull_def orElse_Some nullish_Some
          defaultConfig_def c u s)
qed

lemma loadConfig_store:
  assumes "loadConfig (self, bd) = Inr (self', bd')"
  shows "\<exists>c. config self' = Some c \<and>
             bd' = bd\<lparr>dataConfig := Some (savedData c (customMappings self'))\<rparr> \<and>
             self' = self\<lparr>config := Some c, customMappings := customMappings self'\<rparr>"
  using assms
  by (cases "dataConfig bd")
     (auto simp: loadConfig_def saveConfig_def Let_def savedData_def split: if_splits)

lemma loadConfig_mappings:
  assumes "loadConfig (self, bd) = Inr (self', bd')" "dataConfig bd = Some saved" "truthy saved"
  shows "customMappings self' =
           orElse (nullish (getProp saved ''customMappings'')
                     (optProp (getProp saved ''settings'') ''customMappings'')) (JArr [])"
  using assms
  by (auto simp: loadConfig_def saveConfig_def Let_def)

lemma loadConfig_saved:
  assumes "nonNull c" "m \<noteq> JNull" "dataConfig bd = Some (savedData c m)"
  shows "loadConfig (other, bd) = Inr (other\<lparr>config := Some c, customMappings := m\<rparr>, bd)"
proof -
  have c: "\<lparr>debugMode = debugMode c, fontSize = fontSize c, fontFamily = fontFamily c,
            fontColor = fontColor c, backgroundColor = backgroundColor c, cursorColor = cursorColor c,
            highlightActiveLine = highlightActiveLine c, sendInInsertMode = sendInInsertMode c,
            sendInNormalMode = sendInNormalMode c\<rparr> = c"
    by simp
  have b: "bd\<lparr>dataConfig := Some (savedData c m)\<rparr> = bd"
    using assms(3) by simp
  have p: "pick (savedData c m) ''debugMode'' d = debugMode c"
    "pick (savedData c m) ''fontSize'' d = fontSize c"
    "pick (savedData c m) ''fontFamily'' d = fontFamily c"
    "pick (savedData c m) ''fontColor'' d = fontColor c"
    "pick (savedData c m) ''backgroundColor'' d = backgroundColor c"
    "pick (savedData c m) ''cursorColor'' d = cursorColor c"
    "pick (savedData c m) ''highlightActiveLine'' d = highlightActiveLine c"
    "pick (savedData c m) ''sendInInsertMode'' d = sendInInsertMode c"
    "pick (savedData c m) ''sendInNormalMode'' d = sendInNormalMode c" for d
    using assms(1) by (simp_all add: pick_def savedData_def nonNull_def orElse_Some)
  have q: "orElse (nullish (getProp (savedData c m) ''customMappings'')
                     (optProp (getProp (savedData c m) ''settings'') ''customMappings'')) (JArr []) = m"
    using assms(2) by (simp add: savedData_def nullish_Some orElse_Some)
  have t: "truthy (savedData c m)"
    by (simp add: savedData_def)
  have s: "saveConfig (other\<lparr>config := Some c, customMappings := m\<rparr>, bd) =
             Inr (other\<lparr>config := Some c, customMappings := m\<rparr>, bd)"
    using b by (simp add: saveConfig_def Let_def savedData_def)
  show ?thesis
    by (simp add: loadConfig_def assms(3) Let_def t p q c s)
qed

text \<open>
  C8. \<open>loadConfig\<close> always returns. When nothing was saved (or the saved value is falsy)
  the configuration is \<open>defaultConfig\<close> and \<open>customMappings\<close> is empty. When saved data
  exists, every field has the value of the nested settings object if present, else that of
  the flat saved object, else the default (\<open>specConfig\<close>), and \<open>customMappings\<close> is the saved
  list, flat before nested, else empty. \<open>loadConfig\<close> ends by saving: it changes only the
  configuration and the mappings of the plugin, and the store it leaves holds exactly the
  ten saved fields of the normalised configuration (\<open>savedData\<close>). Any plugin object that
  loads from that store gets the same configuration and the same mappings and leaves the
  store as it is; in particular the result is what \<open>saveConfig\<close> makes of the normalised
  plugin, and running \<open>loadConfig\<close> again on the result changes nothing.
\<close>

theorem loadConfig_normalizes:
  "\<not> isl (loadConfig (self, bd)) \<and>
   (dataConfig bd = None \<or> (\<exists>v. dataConfig bd = Some v \<and> \<not> truthy v) \<longrightarrow>
      config (fst (projr (loadConfig (self, bd)))) = Some defaultConfig \<and>
      customMappings (fst (projr (loadConfig (self, bd)))) = JArr []) \<and>
   (\<forall>saved. dataConfig bd = Some saved \<and> truthy saved \<longrightarrow>
      config (fst (projr (loadConfig (self, bd)))) = Some (specConfig saved) \<and>
      customMappings (fst (projr (loadConfig (self, bd)))) =
        orElse (nullish (getProp saved ''customMappings'')
                  (optProp (getProp saved ''settings'') ''customMappings'')) (JArr [])) \<and>
   (\<exists>c. config (fst (projr (loadConfig (self, bd)))) = Some c \<and>
        fst (projr (loadConfig (self, bd))) =
          self\<lparr>config := Some c,
               customMappings := customMappings (fst (projr (loadConfig (self, bd))))\<rparr> \<and>
        snd (projr (loadConfig (self, bd))) =
          bd\<lparr>dataConfig :=
               Some (savedData c (customMappings (fst (projr (loadConfig (self, bd))))))\<rparr>) \<and>
   (\<forall>other. loadConfig (other, snd (projr (loadConfig (self, bd)))) =
        Inr (other\<lparr>config := config (fst (projr (loadConfig (self, bd)))),
                   customMappings := customMappings (fst (projr (loadConfig (self, bd))))\<rparr>,
             snd (projr (loadConfig (self, bd))))) \<and>
   saveConfig (fst (projr (loadConfig (self, bd))), bd) = loadConfig (self, bd) \<and>
   loadConfig (projr (loadConfig (self, bd))) = loadConfig (self, bd)"
  (is "?P1 \<and> ?P2 \<and> ?P3 \<and> ?P4 \<and> ?P5 \<and> ?P6 \<and> ?P7")
proof -
  from loadConfig_result[of self bd] obtain self' bd' c where
    r: "loadConfig (self, bd) = Inr (self', bd')" and c: "config self' = Some c" "nonNull c"
      "customMappings self' \<noteq> JNull" and s: "saveConfig (self', bd) = Inr (self', bd')"
    and v: "c = (case dataConfig bd of None \<Rightarrow> defaultConfig
          | Some saved \<Rightarrow> if truthy saved then specConfig saved else defaultConfig)"
    and m: "dataConfig bd = None \<or> (\<exists>v. dataConfig bd = Some v \<and> \<not> truthy v) \<longrightarrow>
        customMappings self' = JArr []"
    by blast
  from reload[OF c s] have i: "loadConfig (self', bd') = Inr (self', bd')" .
  from loadConfig_store[OF r] c(1)
  have st: "bd' = bd\<lparr>dataConfig := Some (savedData c (customMappings self'))\<rparr>"
    "self' = self\<lparr>config := Some c, customMappings := customMappings self'\<rparr>"
    by auto
  have p1: ?P1 using r by simp
  have p2: ?P2 using r c v m by auto
  have p3: ?P3 using r c v loadConfig_mappings[OF r] by auto
  have p4: ?P4
    unfolding r using c(1) st by (intro exI[of _ c]) simp
  from st(1) have d: "dataConfig bd' = Some (savedData c (customMappings self'))"
    by simp
  have p5: ?P5
    unfolding r using loadConfig_saved[OF c(2) c(3) d] c(1) by simp
  have p6: ?P6 using r s by simp
  have p7: ?P7 using r i by simp
  from p1 p2 p3 p4 p5 p6 p7 show ?thesis by (intro conjI)
qed

theorem loadConfig_normalizes_witness:
  "dataConfig (wBd (freshWorld (Some nestedSaved))) = Some nestedSaved \<and> truthy nestedSaved \<and>
   map_option fontSize
     (config (fst (projr (loadConfig (wPlugin (freshWorld (Some nestedSaved)),
                                     wBd (freshWorld (Some nestedSaved))))))) = Some (JNum 20) \<and>
   map_option debugMode
     (config (fst (projr (loadConfig (wPlugin (freshWorld (Some nestedSaved)),
                                     wBd (freshWorld (Some nestedSaved))))))) = Some (JBool True) \<and>
   dataConfig (snd (projr (loadConfig (wPlugin (freshWorld (Some nestedSaved)),
                                      wBd (freshWorld (Some nestedSaved)))))) =
     Some (savedData (specConfig nestedSaved) (JArr [])) \<and>
   dataConfig (wBd (freshWorld None)) = None \<and>
   config (fst (projr (loadConfig (wPlugin (freshWorld None), wBd (freshWorld None))))) =
     Some defaultConfig"
proof -
  have h1: "dataConfig (wBd (freshWorld (Some nestedSaved))) = Some nestedSaved"
    by (simp add: freshWorld_def)
  have h2: "truthy nestedSaved"
    by (simp add: nestedSaved_def)
  have h3: "fontSize (specConfig nestedSaved) = JNum 20" "debugMode (specConfig nestedSaved) = JBool True"
    by code_simp+
  have h4: "orElse (nullish (getProp nestedSaved ''customMappings'')
                  (optProp (getProp nestedSaved ''settings'') ''customMappings'')) (JArr []) = JArr []"
    by code_simp
  have h5: "dataConfig (wBd (freshWorld None)) = None"
    by (simp add: freshWorld_def)
  note t = loadConfig_normalizes[of "wPlugin (freshWorld (Some nestedSaved))"
         "wBd (freshWorld (Some nestedSaved))"]
  note u = loadConfig_normalizes[of "wPlugin (freshWorld None)" "wBd (freshWorld None)"]
  from t h1 h2 h4
  have a: "config (fst (projr (loadConfig (wPlugin (freshWorld (Some nestedSaved)),
                                       wBd (freshWorld (Some nestedSaved)))))) =
          Some (specConfig nestedSaved)"
    "customMappings (fst (projr (loadConfig (wPlugin (freshWorld (Some nestedSaved)),
                                       wBd (freshWorld (Some nestedSaved)))))) = JArr []"
    by auto
  from t obtain c where
    "config (fst (projr (loadConfig (wPlugin (freshWorld (Some nestedSaved)),
                                       wBd (freshWorld (Some nestedSaved)))))) = Some c"
    "snd (projr (loadConfig (wPlugin (freshWorld (Some nestedSaved)),
                                       wBd (freshWorld (Some nestedSaved))))) =
       (wBd (freshWorld (Some nestedSaved)))\<lparr>dataConfig :=
          Some (savedData c (customMappings (fst (projr (loadConfig (wPlugin (freshWorld (Some nestedSaved)),
                                       wBd (freshWorld (Some nestedSaved))))))))\<rparr>"
    by blast
  with a have b: "dataConfig (snd (projr (loadConfig (wPlugin (freshWorld (Some nestedSaved)),
                                      wBd (freshWorld (Some nestedSaved)))))) =
     Some (savedData (specConfig nestedSaved) (JArr []))"
    by simp
  from u h5 have d: "config (fst (projr (loadConfig (wPlugin (freshWorld None), wBd (freshWorld None))))) =
     Some defaultConfig"
    by blast
  from a b d h1 h2 h3 h5 show ?thesis by simp
qed

subsection \<open>Start-up when the editor library cannot be loaded\<close>

lemma loadConfig_shape:
  "\<exists>m d. loadConfig (self, bd) =
      Inr (self\<lparr>config := Some (case dataConfig bd of None \<Rightarrow> defaultConfig
                    | Some saved \<Rightarrow> if truthy saved then specConfig saved else defaultConfig),
                customMappings := m\<rparr>,
           bd\<lparr>dataConfig := Some d\<rparr>)"
  by (cases "dataConfig bd")
     (auto simp: loadConfig_def saveConfig_def Let_def pick_specField specConfig_def)

lemma log_frame:
  "wPlugin (log m t w) = wPlugin w" "wHost (log m t w) = wHost w" "wPage (log m t w) = wPage w"
  "wPreviousChannelId (log m t w) = wPreviousChannelId w"
  "dataConfig (wBd (log m t w)) = dataConfig (wBd w)" "styles (wBd (log m t w)) = styles (wBd w)"
  "dispatcher (wBd (log m t w)) = dispatcher (wBd w)"
  "toasts (wBd (log m t w)) = (if debugOn (wPlugin w) then toasts (wBd w) @ [(''[VimMotions] '' @ m, t)]
                               else toasts (wBd w))"
  by (simp_all add: log_def debugOn_def)

lemma loadAceEditor_frame:
  "wHost (loadAceEditor net w) = wHost w"
  "wPreviousChannelId (loadAceEditor net w) = wPreviousChannelId w"
  "wPlugin (loadAceEditor net w) = (wPlugin w)\<lparr>aceLoaded := aceLoaded (wPlugin (loadAceEditor net w))\<rparr>"
  "dataConfig (wBd (loadAceEditor net w)) = dataConfig (wBd w)"
  "styles (wBd (loadAceEditor net w)) = styles (wBd w)"
  "dispatcher (wBd (loadAceEditor net w)) = dispatcher (wBd w)"
  "wrappedInputs (wPage (loadAceEditor net w)) = wrappedInputs (wPage w)"
  "textInputs (wPage (loadAceEditor net w)) = textInputs (wPage w)"
  by (simp_all add: loadAceEditor_def Let_def loadScript_def setAceLoaded_def log_def)

lemma loadAceEditor_failure:
  assumes "\<not> aceLoaded (wPlugin (loadAceEditor net w))"
  shows "\<not> windowAce (wPage w)"
    and "headScripts (wPage (loadAceEditor net w)) = headScripts (wPage w) @ [aceUrl] \<or>
         headScripts (wPage (loadAceEditor net w)) = headScripts (wPage w) @ [aceUrl, vimUrl]"
    and "\<not> debugOn (wPlugin w) \<Longrightarrow> toasts (wBd (loadAceEditor net w)) = toasts (wBd w)"
  using assms
  by (auto simp: loadAceEditor_def Let_def loadScript_def setAceLoaded_def log_def debugOn_def
        split: if_splits)

lemma loadAceEditor_aceLoaded:
  "aceLoaded (wPlugin (loadAceEditor net w)) =
     (windowAce (wPage w) \<or>
      (aceScriptLoads net \<and>
       ((aceScriptDefinesAce net \<and> vimScriptLoads net) \<or>
        (\<not> aceScriptDefinesAce net \<and> aceLoaded (wPlugin w)))))"
  by (auto simp: loadAceEditor_def Let_def loadScript_def setAceLoaded_def log_def)

text \<open>
  C10, as amended. If loading the library from the given state does not succeed, \<open>start\<close>
  returns normally with \<open>aceLoaded\<close> false, having set up no listener, added no style and
  started no observer: of the plugin only \<open>config\<close>, \<open>customMappings\<close> and \<open>aceLoaded\<close> may
  differ (so the editor registry, the active inputs and both draft maps are unchanged),
  the host and the remembered channel are unchanged, and no style sheet or editor wrapper
  was added. Its last toast is the error toast, and that is the only toast when debug
  mode is off before and after. What it does change: the settings are loaded and saved,
  and the script element of the library (and, when the library itself loaded, that of the
  key bindings) has been appended to the document head.
\<close>

theorem start_load_failure:
  assumes fail: "\<not> aceLoaded (wPlugin (loadAceEditor net w))"
  shows
    "\<not> isl (start net w) \<and>
     (let w' = projr (start net w) in
        \<not> aceLoaded (wPlugin w') \<and>
        wPlugin w' = (wPlugin w)\<lparr>config := config (wPlugin w'),
                                customMappings := customMappings (wPlugin w'),
                                aceLoaded := False\<rparr> \<and>
        wHost w' = wHost w \<and> wPreviousChannelId w' = wPreviousChannelId w \<and>
        styles (wBd w') = styles (wBd w) \<and> dispatcher (wBd w') = dispatcher (wBd w) \<and>
        wrappedInputs (wPage w') = wrappedInputs (wPage w) \<and>
        textInputs (wPage w') = textInputs (wPage w) \<and>
        toasts (wBd w') \<noteq> [] \<and> last (toasts (wBd w')) = loadFailedToast \<and>
        (\<not> debugOn (wPlugin w) \<and> \<not> debugOn (wPlugin w') \<longrightarrow>
           toasts (wBd w') = toasts (wBd w) @ [loadFailedToast]) \<and>
        config (wPlugin w') =
          Some (case dataConfig (wBd w) of None \<Rightarrow> defaultConfig
                | Some saved \<Rightarrow> if truthy saved then specConfig saved else defaultConfig) \<and>
        dataConfig (wBd w') \<noteq> None \<and>
        \<not> windowAce (wPage w) \<and>
        (headScripts (wPage w') = headScripts (wPage w) @ [aceUrl] \<or>
         headScripts (wPage w') = headScripts (wPage w) @ [aceUrl, vimUrl]))"
proof -
  define w0 where "w0 = log ''Starting VimMotions with Ace Editor...'' ''info'' w"
  define c where "c = (case dataConfig (wBd w) of None \<Rightarrow> defaultConfig
                | Some saved \<Rightarrow> if truthy saved then specConfig saved else defaultConfig)"
  obtain m d where lc: "loadConfig (wPlugin w0, wBd w0) =
      Inr ((wPlugin w)\<lparr>config := Some c, customMappings := m\<rparr>, (wBd w0)\<lparr>dataConfig := Some d\<rparr>)"
    using loadConfig_shape[of "wPlugin w0" "wBd w0"]
    by (auto simp: w0_def log_frame c_def)
  define w1 where "w1 = w0\<lparr>wPlugin := (wPlugin w)\<lparr>config := Some c, customMappings := m\<rparr>,
                          wBd := (wBd w0)\<lparr>dataConfig := Some d\<rparr>\<rparr>"
  define w2 where "w2 = loadAceEditor net w1"
  have w1f: "wPlugin w1 = (wPlugin w)\<lparr>config := Some c, customMappings := m\<rparr>"
    "wHost w1 = wHost w" "wPage w1 = wPage w" "wPreviousChannelId w1 = wPreviousChannelId w"
    "styles (wBd w1) = styles (wBd w)" "dispatcher (wBd w1) = dispatcher (wBd w)"
    "dataConfig (wBd w1) = Some d"
    "toasts (wBd w1) = toasts (wBd w0)"
    by (simp_all add: w1_def w0_def log_frame)
  have f2: "\<not> aceLoaded (wPlugin w2)"
    using fail by (simp add: w2_def loadAceEditor_aceLoaded w1f)
  have st: "start net w = Inr (showToast ''[VimMotions] Failed to load Ace Editor'' ''error'' w2)"
    using f2
    by (simp add: start_def w0_def[symmetric] lc Let_def w1_def[symmetric] w2_def[symmetric])
  note la = loadAceEditor_frame[of net w1, folded w2_def]
  note lfail = loadAceEditor_failure[OF f2[unfolded w2_def], folded w2_def]
  have pl: "wPlugin w2 = (wPlugin w)\<lparr>config := Some c, customMappings := m, aceLoaded := False\<rparr>"
    using la(3) f2 by (simp add: w1f)
  have dbg: "debugOn (wPlugin w2) = debugOn (wPlugin w1)"
    by (simp add: pl w1f debugOn_def)
  have ts: "\<not> debugOn (wPlugin w) \<Longrightarrow> \<not> debugOn (wPlugin w2) \<Longrightarrow> toasts (wBd w2) = toasts (wBd w)"
    using lfail(3) dbg by (simp add: w1f w0_def log_frame)
  define w' where "w' = showToast ''[VimMotions] Failed to load Ace Editor'' ''error'' w2"
  have w'f: "wPlugin w' = wPlugin w2" "wHost w' = wHost w2" "wPage w' = wPage w2"
    "wPreviousChannelId w' = wPreviousChannelId w2" "styles (wBd w') = styles (wBd w2)"
    "dispatcher (wBd w') = dispatcher (wBd w2)" "dataConfig (wBd w') = dataConfig (wBd w2)"
    "toasts (wBd w') = toasts (wBd w2) @ [loadFailedToast]"
    by (simp_all add: w'_def showToast_def loadFailedToast_def)
  have goal: "\<not> aceLoaded (wPlugin w') \<and>
        wPlugin w' = (wPlugin w)\<lparr>config := config (wPlugin w'),
                                customMappings := customMappings (wPlugin w'),
                                aceLoaded := False\<rparr> \<and>
        wHost w' = wHost w \<and> wPreviousChannelId w' = wPreviousChannelId w \<and>
        styles (wBd w') = styles (wBd w) \<and> dispatcher (wBd w') = dispatcher (wBd w) \<and>
        wrappedInputs (wPage w') = wrappedInputs (wPage w) \<and>
        textInputs (wPage w') = textInputs (wPage w) \<and>
        toasts (wBd w') \<noteq> [] \<and> last (toasts (wBd w')) = loadFailedToast \<and>
        (\<not> debugOn (wPlugin w) \<and> \<not> debugOn (wPlugin w') \<longrightarrow>
           toasts (wBd w') = toasts (wBd w) @ [loadFailedToast]) \<and>
        config (wPlugin w') = Some c \<and>
        dataConfig (wBd w') \<noteq> None \<and>
        \<not> windowAce (wPage w) \<and>
        (headScripts (wPage w') = headScripts (wPage w) @ [aceUrl] \<or>
         headScripts (wPage w') = headScripts (wPage w) @ [aceUrl, vimUrl])"
    using lfail(1,2) ts
    by (simp add: w'f pl la w1f)
  have nisl: "\<not> isl (start net w)"
    by (simp add: st)
  have pr: "projr (start net w) = w'"
    by (simp add: st w'_def)
  from nisl goal[unfolded c_def] show ?thesis
    unfolding Let_def pr by (rule conjI)
qed

theorem start_load_failure_witness:
  "\<not> aceLoaded (wPlugin (loadAceEditor offline (freshWorld None))) \<and>
   \<not> isl (start offline (freshWorld None)) \<and>
   toasts (wBd (projr (start offline (freshWorld None)))) = [loadFailedToast] \<and>
   draftCache (wPlugin (projr (start offline (freshWorld None)))) ''c1'' = None \<and>
   \<not> observer (wPlugin (projr (start offline (freshWorld None))))"
proof -
  have h1: "\<not> aceLoaded (wPlugin (loadAceEditor offline (freshWorld None)))"
    by code_simp
  have h2: "\<not> debugOn (wPlugin (freshWorld None))"
    "\<not> debugOn (wPlugin (projr (start offline (freshWorld None))))"
    by code_simp+
  have h3: "toasts (wBd (freshWorld None)) = []"
    "draftCache (wPlugin (freshWorld None)) ''c1'' = None" "\<not> observer (wPlugin (freshWorld None))"
    by (simp_all add: freshWorld_def newPlugin_def)
  note t = start_load_failure[OF h1, unfolded Let_def]
  from t have a: "\<not> isl (start offline (freshWorld None))"
    by (elim conjE)
  from t have b: "wPlugin (projr (start offline (freshWorld None))) =
            (wPlugin (freshWorld None))\<lparr>config := config (wPlugin (projr (start offline (freshWorld None)))),
               customMappings := customMappings (wPlugin (projr (start offline (freshWorld None)))),
               aceLoaded := False\<rparr>"
    by (elim conjE)
  from t have c: "\<not> debugOn (wPlugin (freshWorld None)) \<and>
            \<not> debugOn (wPlugin (projr (start offline (freshWorld None)))) \<longrightarrow>
            toasts (wBd (projr (start offline (freshWorld None)))) =
              toasts (wBd (freshWorld None)) @ [loadFailedToast]"
    by (elim conjE)
  have d: "draftCache (wPlugin (projr (start offline (freshWorld None)))) ''c1'' =
             draftCache (wPlugin (freshWorld None)) ''c1''"
    "observer (wPlugin (projr (start offline (freshWorld None)))) = observer (wPlugin (freshWorld None))"
    by (subst b, simp)+
  from a c d h1 h2 h3 show ?thesis by simp
qed

text \<open>
  The claim as first stated fails on the page and on the toasts: with no script loading,
  the head has gained a script element and the settings were loaded and saved; with debug
  mode saved as on, two error toasts are shown.
\<close>

theorem start_load_failure_counterexample:
  "\<not> aceLoaded (wPlugin (loadAceEditor offline (freshWorld None))) \<and>
   \<not> isl (start offline (freshWorld None)) \<and>
   headScripts (wPage (freshWorld None)) = [] \<and>
   headScripts (wPage (projr (start offline (freshWorld None)))) = [aceUrl] \<and>
   config (wPlugin (freshWorld None)) = None \<and>
   config (wPlugin (projr (start offline (freshWorld None)))) = Some defaultConfig \<and>
   length (filter (\<lambda>t. snd t = ''error'')
             (toasts (wBd (projr (start offline (freshWorld (Some nestedSaved))))))) = 2"
  by code_simp

end
